theory Spec2Isabelle
  imports Main "HOL-Library.AList" "HOL-Library.Char_ord" "HOL-Library.List_Lexorder"
    "HOL-Library.Sublist"
begin

section \<open>JavaScript values\<close>

text \<open>
  The descriptors, the header metadata of a binary and the payloads of events are plain
  JavaScript objects. They are embedded as a datatype of values. A number is a double:
  the model has the integers that a double represents (header metadata holds counts and
  ids), the two infinities (\<open>JInfinity True\<close> is the negative one) and \<open>NaN\<close>; fractions
  are outside the model. An object is the list of its own properties in insertion order.
  Strings are lists of code units below 256.
\<close>

datatype jsval =
    JUndefined
  | JNull
  | JBool bool
  | JNum int
  | JNaN
  | JInfinity bool
  | JStr string
  | JArr "jsval list"
  | JObj "(string \<times> jsval) list"

datatype error =
    TypeError
  | SyntaxError
  | IOError
  | Error string

text \<open>Sequencing of a computation that may throw.\<close>

definition ebind :: "error + 'a \<Rightarrow> ('a \<Rightarrow> error + 'b) \<Rightarrow> error + 'b" where
  "ebind m f = (case m of Inl e \<Rightarrow> Inl e | Inr x \<Rightarrow> f x)"

text \<open>\<open>v == null\<close>: true of \<open>null\<close> and \<open>undefined\<close> only.\<close>

fun nullish :: "jsval \<Rightarrow> bool" where
  "nullish JUndefined = True"
| "nullish JNull = True"
| "nullish _ = False"

text \<open>The truth value of \<open>v\<close> in a condition (\<open>v ? a : b\<close>, \<open>!v\<close>, \<open>!!v\<close>).\<close>

fun truthy :: "jsval \<Rightarrow> bool" where
  "truthy JUndefined = False"
| "truthy JNull = False"
| "truthy (JBool b) = b"
| "truthy (JNum n) = (n \<noteq> 0)"
| "truthy JNaN = False"
| "truthy (JInfinity _) = True"
| "truthy (JStr s) = (s \<noteq> [])"
| "truthy (JArr _) = True"
| "truthy (JObj _) = True"

text \<open>\<open>a ?? b\<close>; the right operand is evaluated only when the left one is nullish.\<close>

definition coalesce :: "jsval \<Rightarrow> (error + jsval) \<Rightarrow> error + jsval" where
  "coalesce a b = (if nullish a then b else Inr a)"

subsection \<open>Conversion to strings\<close>

definition digit_char :: "nat \<Rightarrow> char" where
  "digit_char d = char_of (48 + d)"

fun show_nat :: "nat \<Rightarrow> string" where
  "show_nat n = (if n < 10 then [digit_char n] else show_nat (n div 10) @ [digit_char (n mod 10)])"

declare show_nat.simps [simp del]

definition show_int :: "int \<Rightarrow> string" where
  "show_int i = (if i < 0 then CHR ''-'' # show_nat (nat (- i)) else show_nat (nat i))"

subsection \<open>Doubles\<close>

text \<open>
  The double nearest to a natural number, ties going to the even 53-bit mantissa. A
  number below \<open>2^53\<close> is a double. The result of an arithmetic operation is the
  double nearest to the exact result, an infinity from \<open>2^1024\<close> on.
\<close>

fun bit_length :: "nat \<Rightarrow> nat" where
  "bit_length n = (if n = 0 then 0 else Suc (bit_length (n div 2)))"

declare bit_length.simps [simp del]

definition round_f64 :: "nat \<Rightarrow> nat" where
  "round_f64 a =
     (if a < 9007199254740992 then a
      else let q = 2 ^ (bit_length a - 53); m = a div q; r = a mod q; h = q div 2
           in (if r < h \<or> (r = h \<and> even m) then m else Suc m) * q)"

definition number_of :: "int \<Rightarrow> jsval" where
  "number_of z =
     (if \<bar>z\<bar> < 9007199254740992 then JNum z
      else let a = round_f64 (nat \<bar>z\<bar>)
           in if 2 ^ 1024 \<le> a then JInfinity (z < 0)
              else JNum (if z < 0 then - int a else int a))"

text \<open>
  The decimal digits of a double from \<open>2^53\<close> on, as \<open>String\<close> gives them: the
  shortest digit string \<open>s\<close>, of \<open>k\<close> digits, and the exponent \<open>n\<close> such that
  \<open>s * 10^(n - k)\<close> is read back as the double; of several, the nearest one and then
  the even one. Up to 21 digits the digits are followed by zeros, beyond that the
  exponent is written out.
\<close>

definition digit_candidates :: "nat \<Rightarrow> nat \<Rightarrow> (nat \<times> nat) list" where
  "digit_candidates v k =
     concat (map (\<lambda>n. concat (map (\<lambda>s.
         if 10 ^ (k - 1) \<le> s \<and> s < 10 ^ k \<and> round_f64 (s * 10 ^ (n - k)) = v
         then [(s, n)] else [])
       [v div 10 ^ (n - k), Suc (v div 10 ^ (n - k))]))
     [length (show_nat v), Suc (length (show_nat v))])"

definition digit_distance :: "nat \<Rightarrow> nat \<Rightarrow> nat \<times> nat \<Rightarrow> int" where
  "digit_distance v k c = \<bar>int (fst c * 10 ^ (snd c - k)) - int v\<bar>"

definition nearest_digits :: "nat \<Rightarrow> nat \<Rightarrow> (nat \<times> nat) list \<Rightarrow> nat \<times> nat" where
  "nearest_digits v k cs =
     fold (\<lambda>c b. if digit_distance v k c < digit_distance v k b
                      \<or> (digit_distance v k c = digit_distance v k b \<and> even (fst c))
                   then c else b)
       cs (case cs of [] \<Rightarrow> (v, length (show_nat v)) | c # _ \<Rightarrow> c)"

definition shortest_digits :: "nat \<Rightarrow> nat \<times> nat" where
  "shortest_digits v =
     (case filter (\<lambda>k. digit_candidates v k \<noteq> []) [1..<18] of
        [] \<Rightarrow> (v, length (show_nat v))
      | k # _ \<Rightarrow> nearest_digits v k (digit_candidates v k))"

definition show_double :: "nat \<Rightarrow> string" where
  "show_double v =
     (let (s, n) = shortest_digits v; ds = show_nat s
      in if n \<le> 21 then ds @ replicate (n - length ds) (CHR ''0'')
         else (case ds of
                 [] \<Rightarrow> []
               | d # rest \<Rightarrow> d # (if rest = [] then [] else CHR ''.'' # rest))
              @ ''e+'' @ show_nat (n - 1))"

definition show_number :: "int \<Rightarrow> string" where
  "show_number z =
     (if \<bar>z\<bar> < 9007199254740992 then show_int z
      else (if z < 0 then ''-'' else []) @ show_double (nat \<bar>z\<bar>))"

fun join_with :: "string \<Rightarrow> string list \<Rightarrow> string" where
  "join_with sep [] = []"
| "join_with sep [x] = x"
| "join_with sep (x # y # ys) = x @ sep @ join_with sep (y # ys)"

text \<open>\<open>String(v)\<close>, which a template literal and a computed property key apply.\<close>

fun js_to_string :: "jsval \<Rightarrow> string" where
  "js_to_string JUndefined = ''undefined''"
| "js_to_string JNull = ''null''"
| "js_to_string (JBool b) = (if b then ''true'' else ''false'')"
| "js_to_string (JNum n) = show_number n"
| "js_to_string JNaN = ''NaN''"
| "js_to_string (JInfinity negative) = (if negative then ''-Infinity'' else ''Infinity'')"
| "js_to_string (JStr s) = s"
| "js_to_string (JArr xs) =
     join_with '','' (map (\<lambda>x. if nullish x then [] else js_to_string x) xs)"
| "js_to_string (JObj _) = ''[object Object]''"

subsection \<open>Property access, spread and addition\<close>

text \<open>
  \<open>v[k]\<close> and \<open>v.k\<close> for a string key: reading a property of \<open>null\<close> or \<open>undefined\<close>
  throws a TypeError; an object gives its own property; an array and a string give the
  element at a decimal index and their \<open>length\<close>; every other read gives \<open>undefined\<close>
  (inherited methods are not values of the model).
\<close>

definition index_of_key :: "string \<Rightarrow> nat \<Rightarrow> nat option" where
  "index_of_key k n = find (\<lambda>i. show_nat i = k) [0..<n]"

fun js_prop :: "jsval \<Rightarrow> string \<Rightarrow> error + jsval" where
  "js_prop JUndefined k = Inl TypeError"
| "js_prop JNull k = Inl TypeError"
| "js_prop (JObj kvs) k = (case map_of kvs k of None \<Rightarrow> Inr JUndefined | Some v \<Rightarrow> Inr v)"
| "js_prop (JArr xs) k =
     (case index_of_key k (length xs) of
        Some i \<Rightarrow> Inr (xs ! i)
      | None \<Rightarrow> if k = ''length'' then Inr (JNum (int (length xs))) else Inr JUndefined)"
| "js_prop (JStr s) k =
     (case index_of_key k (length s) of
        Some i \<Rightarrow> Inr (JStr [s ! i])
      | None \<Rightarrow> if k = ''length'' then Inr (JNum (int (length s))) else Inr JUndefined)"
| "js_prop _ k = Inr JUndefined"

text \<open>
  The own enumerable properties that \<open>{...v}\<close> copies. An object names each
  property once; of a repeated key in the list, the first entry is the property.
\<close>

fun js_spread :: "jsval \<Rightarrow> (string \<times> jsval) list" where
  "js_spread (JObj kvs) = AList.clearjunk kvs"
| "js_spread (JArr xs) = zip (map show_nat [0..<length xs]) xs"
| "js_spread (JStr s) = zip (map show_nat [0..<length s]) (map (\<lambda>c. JStr [c]) s)"
| "js_spread _ = []"

text \<open>
  An object literal is built left to right: \<open>put k v\<close> for a property \<open>k: v\<close> and
  \<open>spread v\<close> for \<open>...v\<close>. A key that is already there keeps its place and takes the
  new value.
\<close>

definition put :: "string \<Rightarrow> jsval \<Rightarrow> (string \<times> jsval) list \<Rightarrow> (string \<times> jsval) list" where
  "put k v ps = AList.update k v ps"

definition spread :: "jsval \<Rightarrow> (string \<times> jsval) list \<Rightarrow> (string \<times> jsval) list" where
  "spread v ps = fold (\<lambda>(k, x). AList.update k x) (js_spread v) ps"

text \<open>
  The own property of a value under a key, if there is one, and the value of a property
  read where a missing property reads as \<open>undefined\<close>.
\<close>

definition own_property :: "jsval \<Rightarrow> string \<Rightarrow> jsval option" where
  "own_property v k = map_of (js_spread v) k"

definition prop_of :: "jsval \<Rightarrow> string \<Rightarrow> jsval" where
  "prop_of v k = (case js_prop v k of Inl _ \<Rightarrow> JUndefined | Inr x \<Rightarrow> x)"

text \<open>\<open>Number(v)\<close> for the values that are not turned into strings by \<open>+\<close>.\<close>

fun js_to_number :: "jsval \<Rightarrow> jsval" where
  "js_to_number (JNum n) = JNum n"
| "js_to_number (JBool b) = JNum (if b then 1 else 0)"
| "js_to_number JNull = JNum 0"
| "js_to_number (JInfinity negative) = JInfinity negative"
| "js_to_number _ = JNaN"

fun is_stringy :: "jsval \<Rightarrow> bool" where
  "is_stringy (JStr _) = True"
| "is_stringy (JArr _) = True"
| "is_stringy (JObj _) = True"
| "is_stringy _ = False"

text \<open>
  \<open>a + b\<close>: concatenation when an operand is a string, an array or an object, else the
  sum of two doubles.
\<close>

definition js_add :: "jsval \<Rightarrow> jsval \<Rightarrow> jsval" where
  "js_add a b =
     (if is_stringy a \<or> is_stringy b then JStr (js_to_string a @ js_to_string b)
      else case (js_to_number a, js_to_number b) of
             (JNum x, JNum y) \<Rightarrow> number_of (x + y)
           | (JNum x, JInfinity negative) \<Rightarrow> JInfinity negative
           | (JInfinity negative, JNum y) \<Rightarrow> JInfinity negative
           | (JInfinity negative, JInfinity negative') \<Rightarrow>
               if negative = negative' then JInfinity negative else JNaN
           | _ \<Rightarrow> JNaN)"

section \<open>The collaborators of the model extension\<close>

text \<open>
  The extension reads a default descriptor \<open>DEFAULT_MODEL\<close>, asks the main process to
  render the prompt template of a header (\<open>None\<close> when that call rejects), reads the
  clock and the data folder. They are declared outside the repository sources and are
  taken as parameters. \<open>jsonLength v\<close> is the byte length of the text
  \<open>JSON.stringify(v, null, 2)\<close>.
\<close>

type_synonym path = "string list"

record env =
  DEFAULT_MODEL :: jsval
  renderJinjaTemplate :: "jsval \<Rightarrow> jsval option"
  now :: int
  janDataFolderPath :: path
  jsonLength :: "jsval \<Rightarrow> nat"

section \<open>Settings from the header metadata\<close>

text \<open>
  \<open>retrieveGGUFMetadata\<close> of the extension. The object literal it returns evaluates
  \<open>settings\<close> before \<open>parameters\<close>; a TypeError in either rejects the call.
\<close>

definition gguf_settings :: "env \<Rightarrow> jsval \<Rightarrow> jsval \<Rightarrow> error + jsval" where
  "gguf_settings e metadata architecture =
     (let defaultModel = DEFAULT_MODEL e;
          template = (case renderJinjaTemplate e metadata of None \<Rightarrow> JUndefined | Some t \<Rightarrow> t)
      in
      ebind (coalesce template
               (ebind (js_prop defaultModel ''settings'') (\<lambda>s. js_prop s ''prompt_template'')))
        (\<lambda>prompt_template.
      ebind (ebind (js_prop metadata (js_to_string architecture @ ''.context_length''))
               (\<lambda>c. coalesce c
                 (ebind (js_prop metadata ''llama.context_length'')
                    (\<lambda>c'. coalesce c' (Inr (JNum 4096))))))
        (\<lambda>ctx_len.
      ebind (ebind (js_prop metadata (js_to_string architecture @ ''.block_count''))
               (\<lambda>b. coalesce b
                 (ebind (js_prop metadata ''llama.block_count'')
                    (\<lambda>b'. coalesce b' (Inr (JNum 32))))))
        (\<lambda>block_count.
      Inr (JObj [(''prompt_template'', prompt_template),
                 (''ctx_len'', ctx_len),
                 (''ngl'', js_add block_count (JNum 1))])))))"

definition gguf_parameters :: "env \<Rightarrow> jsval \<Rightarrow> jsval \<Rightarrow> error + jsval" where
  "gguf_parameters e metadata eos_id =
     (let defaultModel = DEFAULT_MODEL e in
      ebind (if truthy eos_id
             then ebind (if nullish metadata then Inr JUndefined
                         else ebind (js_prop metadata ''tokenizer.ggml.tokens'')
                                (\<lambda>tokens. js_prop tokens (js_to_string eos_id)))
                    (\<lambda>t. ebind (coalesce t (Inr (JStr ''''))) (\<lambda>t'. Inr (JArr [t'])))
             else ebind (js_prop defaultModel ''parameters'') (\<lambda>p. js_prop p ''stop''))
        (\<lambda>stop. Inr (JObj [(''stop'', stop)])))"

definition retrieveGGUFMetadata :: "env \<Rightarrow> jsval \<Rightarrow> error + jsval" where
  "retrieveGGUFMetadata e metadata =
     ebind (js_prop metadata ''tokenizer.ggml.eos_token_id'') (\<lambda>eos_id.
     ebind (js_prop metadata ''general.architecture'') (\<lambda>architecture.
     ebind (gguf_settings e metadata architecture) (\<lambda>settings.
     ebind (gguf_parameters e metadata eos_id) (\<lambda>parameters.
     Inr (JObj [(''settings'', settings), (''parameters'', parameters)])))))"

text \<open>
  The words of the specification for a setting that is read under several keys: the first
  value that is present, else the default.
\<close>

definition first_present :: "jsval list \<Rightarrow> jsval \<Rightarrow> jsval" where
  "first_present vs d = (case filter (\<lambda>v. \<not> nullish v) vs of [] \<Rightarrow> d | v # _ \<Rightarrow> v)"

text \<open>
  The key of a field qualified by the architecture that the header names: the name, a dot
  and the field. A header that names no architecture is read under \<open>undefined\<close>.
\<close>

definition qualified_key :: "jsval \<Rightarrow> string \<Rightarrow> string" where
  "qualified_key architecture field =
     (case architecture of
        JStr name \<Rightarrow> name
      | JUndefined \<Rightarrow> ''undefined''
      | v \<Rightarrow> js_to_string v) @ ''.'' @ field"

section \<open>The file system, the event sink and the timers\<close>

text \<open>
  A path is the list of its segments. A file is seen through three observations: its
  byte length, the header metadata that the GGUF reader of the main process extracts from
  it (\<open>None\<close> when the reader rejects) and the value \<open>JSON.parse\<close> gives for its
  text (\<open>None\<close> when the text is not JSON). The file system lists the nodes under their
  paths; the first entry of a path is the node there. The root \<open>[]\<close> is a directory.
\<close>

record filedata =
  fsize :: nat
  header :: "jsval option"
  json :: "jsval option"

datatype node = Dir | File filedata

type_synonym filesystem = "(path \<times> node) list"

record FileStat =
  isDirectory :: bool
  size_stat :: nat

record ImportingModel =
  importId :: string
  path :: path

datatype event =
    onFileDownloadUpdate jsval
  | onFileDownloadSuccess jsval
  | onFileDownloadError jsval
  | onLocalImportModelUpdate ImportingModel
  | onLocalImportModelSuccess ImportingModel jsval
  | onLocalImportModelFailed ImportingModel error
  | onLocalImportModelFinished "jsval list"

datatype logline =
    console_debug string
  | console_warn string
  | console_error string
  | console_error_exn error

text \<open>
  The state that the operations act on: the file system, the events emitted so far
  (oldest first), the intervals that are running, the next interval id and the console.
\<close>

record world =
  fs :: filesystem
  events :: "event list"
  timers :: "nat list"
  next_timer :: nat
  console :: "logline list"

type_synonym 'a prog = "world \<Rightarrow> world \<times> (error + 'a)"

definition pret :: "'a \<Rightarrow> 'a prog" where
  "pret x = (\<lambda>w. (w, Inr x))"

definition pthrow :: "error \<Rightarrow> 'a prog" where
  "pthrow err = (\<lambda>w. (w, Inl err))"

definition plift :: "error + 'a \<Rightarrow> 'a prog" where
  "plift r = (\<lambda>w. (w, r))"

definition pbind :: "'a prog \<Rightarrow> ('a \<Rightarrow> 'b prog) \<Rightarrow> 'b prog" where
  "pbind m f = (\<lambda>w. case m w of (w', Inl err) \<Rightarrow> (w', Inl err) | (w', Inr x) \<Rightarrow> f x w')"

text \<open>\<open>try { m } catch (err) { h err }\<close>, and \<open>m.catch(h)\<close> on a promise.\<close>

definition pcatch :: "'a prog \<Rightarrow> (error \<Rightarrow> 'a prog) \<Rightarrow> 'a prog" where
  "pcatch m h = (\<lambda>w. case m w of (w', Inl err) \<Rightarrow> h err w' | (w', Inr x) \<Rightarrow> (w', Inr x))"

fun pmap :: "('a \<Rightarrow> 'b prog) \<Rightarrow> 'a list \<Rightarrow> 'b list prog" where
  "pmap f [] = pret []"
| "pmap f (x # xs) = pbind (f x) (\<lambda>y. pbind (pmap f xs) (\<lambda>ys. pret (y # ys)))"

definition log :: "logline \<Rightarrow> unit prog" where
  "log l = (\<lambda>w. (w\<lparr>console := console w @ [l]\<rparr>, Inr ()))"

definition emit :: "event \<Rightarrow> unit prog" where
  "emit ev = (\<lambda>w. (w\<lparr>events := events w @ [ev]\<rparr>, Inr ()))"

text \<open>
  \<open>setInterval\<close> starts a timer and returns its id; the timer runs until
  \<open>clearInterval\<close> is given that id. When and how often its callback runs depends on
  real time and is not part of the state.
\<close>

definition setInterval :: "nat prog" where
  "setInterval = (\<lambda>w. (w\<lparr>timers := timers w @ [next_timer w], next_timer := Suc (next_timer w)\<rparr>,
                         Inr (next_timer w)))"

definition clearInterval :: "nat \<Rightarrow> unit prog" where
  "clearInterval i = (\<lambda>w. (w\<lparr>timers := removeAll i (timers w)\<rparr>, Inr ()))"

subsection \<open>File operations\<close>

text \<open>
  The operations of the file-system collaborator. An operation that cannot be done throws
  an \<open>IOError\<close> and leaves the files as they are: reading or listing what is not
  there, listing a file, reading a directory as a file, writing where the parent is not
  a directory or where a directory stands, making a directory where something exists.
  \<open>fileStat\<close> gives the byte length of a file; the size it reports for a directory
  depends on the platform and is never read by the operations below before they fail or
  skip the entry, it is 0 here. \<open>children\<close> lists the names directly under a path, in
  the order of the listing.
\<close>

definition lookup :: "filesystem \<Rightarrow> path \<Rightarrow> node option" where
  "lookup f p = (if p = [] then Some Dir else map_of f p)"

definition is_dir :: "filesystem \<Rightarrow> path \<Rightarrow> bool" where
  "is_dir f p = (lookup f p = Some Dir)"

definition children :: "filesystem \<Rightarrow> path \<Rightarrow> string list" where
  "children f p = remdups (map last (filter (\<lambda>q. q \<noteq> [] \<and> butlast q = p) (map fst f)))"

definition remove_tree :: "filesystem \<Rightarrow> path \<Rightarrow> filesystem" where
  "remove_tree f p = filter (\<lambda>(q, n). \<not> prefix p q) f"

definition existsSync :: "path \<Rightarrow> bool prog" where
  "existsSync p = (\<lambda>w. (w, Inr (lookup (fs w) p \<noteq> None)))"

definition readdirSync :: "path \<Rightarrow> string list prog" where
  "readdirSync p = (\<lambda>w. if is_dir (fs w) p then (w, Inr (children (fs w) p)) else (w, Inl IOError))"

definition fileStat :: "path \<Rightarrow> FileStat prog" where
  "fileStat p = (\<lambda>w. case lookup (fs w) p of
       None \<Rightarrow> (w, Inl IOError)
     | Some Dir \<Rightarrow> (w, Inr \<lparr>isDirectory = True, size_stat = 0\<rparr>)
     | Some (File c) \<Rightarrow> (w, Inr \<lparr>isDirectory = False, size_stat = fsize c\<rparr>))"

definition readFileSync :: "path \<Rightarrow> filedata prog" where
  "readFileSync p = (\<lambda>w. case lookup (fs w) p of
       Some (File c) \<Rightarrow> (w, Inr c)
     | _ \<Rightarrow> (w, Inl IOError))"

definition can_create :: "filesystem \<Rightarrow> path \<Rightarrow> bool" where
  "can_create f p = (p \<noteq> [] \<and> is_dir f (butlast p) \<and> \<not> is_dir f p)"

definition writeFileSync :: "path \<Rightarrow> filedata \<Rightarrow> unit prog" where
  "writeFileSync p c = (\<lambda>w. if can_create (fs w) p
       then (w\<lparr>fs := AList.update p (File c) (fs w)\<rparr>, Inr ())
       else (w, Inl IOError))"

definition mkdir :: "path \<Rightarrow> unit prog" where
  "mkdir p = (\<lambda>w. if can_create (fs w) p \<and> lookup (fs w) p = None
       then (w\<lparr>fs := AList.update p Dir (fs w)\<rparr>, Inr ())
       else (w, Inl IOError))"

definition copyFile :: "path \<Rightarrow> path \<Rightarrow> unit prog" where
  "copyFile src dest = pbind (readFileSync src) (\<lambda>c. writeFileSync dest c)"

text \<open>
  \<open>rmdirSync(p, {recursive: true})\<close> removes the directory with everything below it.
\<close>

definition rmdirSync :: "path \<Rightarrow> unit prog" where
  "rmdirSync p = (\<lambda>w. if p \<noteq> [] \<and> is_dir (fs w) p
       then (w\<lparr>fs := remove_tree (fs w) p\<rparr>, Inr ())
       else (w, Inl IOError))"

text \<open>
  The GGUF reader of the main process, \<open>executeOnMain(NODE, 'retrieveGGUFMetadata', p)\<close>:
  it rejects when the file cannot be read or is not a GGUF binary.
\<close>

definition readGGUFHeader :: "path \<Rightarrow> jsval prog" where
  "readGGUFHeader p = pbind (readFileSync p)
     (\<lambda>c. case header c of None \<Rightarrow> pthrow (Error ''not a GGUF file'') | Some h \<Rightarrow> pret h)"

subsection \<open>JSON texts\<close>

text \<open>
  What \<open>JSON.parse\<close> reads back from the text \<open>JSON.stringify\<close> writes: a property
  whose value is \<open>undefined\<close> is left out, \<open>undefined\<close> and \<open>NaN\<close> in an array become
  \<open>null\<close>.
\<close>

fun json_norm :: "jsval \<Rightarrow> jsval" where
  "json_norm (JObj kvs) =
     JObj (concat (map (\<lambda>kv. if snd kv = JUndefined then [] else [(fst kv, json_norm (snd kv))]) kvs))"
| "json_norm (JArr xs) = JArr (map (\<lambda>x. if x = JUndefined then JNull else json_norm x) xs)"
| "json_norm JNaN = JNull"
| "json_norm (JInfinity _) = JNull"
| "json_norm v = v"

definition JSON_stringify :: "env \<Rightarrow> jsval \<Rightarrow> filedata" where
  "JSON_stringify e v = \<lparr>fsize = jsonLength e v, header = None, json = Some (json_norm v)\<rparr>"

definition JSON_parse :: "filedata \<Rightarrow> jsval prog" where
  "JSON_parse c = (case json c of None \<Rightarrow> pthrow SyntaxError | Some v \<Rightarrow> pret v)"

section \<open>The REST builder\<close>

text \<open>
  \<open>join\<close> of the \<open>path\<close> module: the parts are split at the separator and the whole
  path is normalised, an empty segment and \<open>.\<close> are dropped and \<open>..\<close> goes up to the
  parent, at the root to the root itself. The data folder is an absolute path.
\<close>

fun split_path :: "string \<Rightarrow> path" where
  "split_path [] = [[]]"
| "split_path (c # cs) =
     (if c = CHR ''/'' then [] # split_path cs
      else case split_path cs of [] \<Rightarrow> [[c]] | seg # segs \<Rightarrow> (c # seg) # segs)"

fun normalize :: "path \<Rightarrow> string list \<Rightarrow> path" where
  "normalize base [] = base"
| "normalize base (s # ss) =
     (if s = [] \<or> s = ''.'' then normalize base ss
      else if s = ''..'' then normalize (butlast base) ss
      else normalize (base @ [s]) ss)"

definition join :: "path \<Rightarrow> string list \<Rightarrow> path" where
  "join base parts = normalize [] (base @ concat (map split_path parts))"


text \<open>
  \<open>getBuilder\<close>, \<open>retrieveBuilder\<close> and \<open>deleteBuilder\<close> of the REST helper, for a
  route configuration that names the folder of a registry, the file name of its
  descriptors and the object name that a deletion reports
  (\<open>configuration.delete.object\<close>).
\<close>

record RouteConfiguration =
  dirName :: string
  metadataFileName :: string
  delete_object :: string

definition readModelMetadata_builder :: "path \<Rightarrow> filedata option prog" where
  "readModelMetadata_builder p =
     pbind (existsSync p) (\<lambda>ex.
       if ex then pbind (readFileSync p) (\<lambda>c. pret (Some c)) else pret None)"

text \<open>
  \<open>!!data\<close> for what \<open>readModelMetadata\<close> gave: \<open>undefined\<close> and the empty text
  are dropped.
\<close>

fun nonempty_text :: "filedata option \<Rightarrow> bool" where
  "nonempty_text None = False"
| "nonempty_text (Some c) = (fsize c \<noteq> 0)"

definition getBuilder :: "env \<Rightarrow> RouteConfiguration \<Rightarrow> jsval list prog" where
  "getBuilder e configuration =
     (let directoryPath = join (janDataFolderPath e) [dirName configuration] in
      pcatch
        (pbind (existsSync directoryPath) (\<lambda>ex.
           if \<not> ex then pbind (log (console_debug ''model folder not found'')) (\<lambda>_. pret [])
           else
           pbind (readdirSync directoryPath) (\<lambda>files.
           let allDirectories = filter (\<lambda>f. f \<noteq> ''.DS_Store'') files in
           pbind (pmap (\<lambda>d. readModelMetadata_builder
                                (join directoryPath [d, metadataFileName configuration]))
                    allDirectories) (\<lambda>read.
           let results = filter nonempty_text read in
           pbind (pmap (\<lambda>result. pcatch (case result of
                                             None \<Rightarrow> pthrow SyntaxError
                                           | Some c \<Rightarrow> JSON_parse c)
                                   (\<lambda>err. pbind (log (console_error_exn err)) (\<lambda>_. pret JUndefined)))
                    results) (\<lambda>parsed.
           pret (filter truthy parsed))))))
        (\<lambda>err. pbind (log (console_error_exn err)) (\<lambda>_. pret [])))"

definition retrieveBuilder :: "env \<Rightarrow> RouteConfiguration \<Rightarrow> string \<Rightarrow> jsval prog" where
  "retrieveBuilder e configuration ident =
     pbind (getBuilder e configuration) (\<lambda>data.
       case filter (\<lambda>d. js_prop d ''id'' = Inr (JStr ident)) data of
         [] \<Rightarrow> pret JUndefined
       | filteredData # _ \<Rightarrow> if \<not> truthy filteredData then pret JUndefined else pret filteredData)"

definition deleteBuilder :: "env \<Rightarrow> RouteConfiguration \<Rightarrow> string \<Rightarrow> jsval prog" where
  "deleteBuilder e configuration ident =
     (if dirName configuration = ''assistants'' \<and> ident = ''jan''
      then pret (JObj [(''message'', JStr ''Cannot delete Jan assistant'')])
      else
      let directoryPath = join (janDataFolderPath e) [dirName configuration] in
      pcatch
        (pbind (retrieveBuilder e configuration ident) (\<lambda>data.
           if \<not> truthy data then pret (JObj [(''message'', JStr ''Not found'')])
           else
           let objectPath = join directoryPath [ident] in
           pbind (rmdirSync objectPath) (\<lambda>_.
           pret (JObj [(''id'', JStr ident),
                       (''object'', JStr (delete_object configuration)),
                       (''deleted'', JBool True)]))))
        (\<lambda>ex. pbind (log (console_error_exn ex)) (\<lambda>_. pret JUndefined)))"

section \<open>The model extension\<close>

subsection \<open>Paths and names\<close>

text \<open>
  \<open>joinPath\<close> and \<open>baseName\<close> of the core library act on segment lists here; a path
  that a descriptor holds as a string is split at the separator. The home directory
  \<open>file://models\<close> is the folder \<open>models\<close> of the data folder.
\<close>

definition path_string :: "path \<Rightarrow> string" where
  "path_string p = join_with ''/'' p"

definition baseName :: "path \<Rightarrow> string" where
  "baseName p = (if p = [] then [] else last p)"

definition homeDir :: "env \<Rightarrow> path" where
  "homeDir e = janDataFolderPath e @ [''models'']"

definition modelMetadataFileName :: string where
  "modelMetadataFileName = ''model.json''"

definition supportedModelFormat :: string where
  "supportedModelFormat = ''.gguf''"

definition endsWith :: "string \<Rightarrow> string \<Rightarrow> bool" where
  "endsWith s suf = suffix suf s"

text \<open>The characters that the pattern \<open>\s\<close> matches, among the code units below 256.\<close>

definition is_space :: "char \<Rightarrow> bool" where
  "is_space c = (of_char c \<in> {9, 10, 11, 12, 13, 32, 160 :: nat})"

text \<open>\<open>s.replace(pat, rep)\<close> with a string pattern: the first occurrence only.\<close>

fun replace_first :: "string \<Rightarrow> string \<Rightarrow> string \<Rightarrow> string" where
  "replace_first pat rep [] = (if pat = [] then rep else [])"
| "replace_first pat rep (c # cs) =
     (if prefix pat (c # cs) then rep @ drop (length pat) (c # cs)
      else c # replace_first pat rep cs)"

text \<open>A path argument of a file operation that is not a string is a TypeError.\<close>

definition path_arg :: "jsval \<Rightarrow> path prog" where
  "path_arg v = (case v of JStr s \<Rightarrow> pret (split_path s) | _ \<Rightarrow> pthrow TypeError)"

subsection \<open>Synthesis of a descriptor\<close>

text \<open>
  The loop of \<open>generateModelMetadata\<close> over the sorted file names: the first name with
  the supported extension that is not a directory, with its byte length.
\<close>

fun find_binary :: "path \<Rightarrow> string list \<Rightarrow> (string \<times> nat) option prog" where
  "find_binary dir [] = pret None"
| "find_binary dir (f # files) =
     (if endsWith f supportedModelFormat
      then pbind (fileStat (dir @ [f])) (\<lambda>fileStats.
             if isDirectory fileStats then find_binary dir files
             else pret (Some (f, size_stat fileStats)))
      else find_binary dir files)"

text \<open>The descriptor that synthesis and the link strategy both build.\<close>

definition build_model ::
  "env \<Rightarrow> jsval \<Rightarrow> jsval \<Rightarrow> string \<Rightarrow> jsval \<Rightarrow> string \<Rightarrow> nat \<Rightarrow> error + jsval" where
  "build_model e defaultModel updatedModel ident url binaryFileName binaryFileSize =
     ebind (js_prop defaultModel ''parameters'') (\<lambda>dp.
     ebind (js_prop updatedModel ''parameters'') (\<lambda>up.
     ebind (js_prop defaultModel ''settings'') (\<lambda>ds.
     ebind (js_prop updatedModel ''settings'') (\<lambda>us.
     Inr (JObj
       (put ''metadata'' (JObj [(''size'', JNum (int binaryFileSize)),
                                (''author'', JStr ''User''),
                                (''tags'', JArr [])])
       (put ''description'' (JStr [])
       (put ''created'' (JNum (now e))
       (put ''settings'' (JObj (put ''llama_model_path'' (JStr binaryFileName)
                                  (spread us (spread ds []))))
       (put ''parameters'' (JObj (spread up (spread dp [])))
       (put ''sources'' (JArr [JObj [(''url'', url), (''filename'', JStr binaryFileName)]])
       (put ''name'' (JStr ident)
       (put ''id'' (JStr ident)
       (spread defaultModel []))))))))))))))"

definition generateModelMetadata :: "env \<Rightarrow> string \<Rightarrow> jsval prog" where
  "generateModelMetadata e dir_name =
     pbind (readdirSync (homeDir e @ [dir_name])) (\<lambda>files.
     pbind (find_binary (homeDir e @ [dir_name]) (sort files)) (\<lambda>found.
     case found of
       None \<Rightarrow>
         pbind (log (console_warn (''Unable to find binary file for model '' @ dir_name)))
           (\<lambda>_. pret JUndefined)
     | Some (binaryFileName, binaryFileSize) \<Rightarrow>
         let defaultModel = DEFAULT_MODEL e in
         pbind (pcatch (readGGUFHeader (janDataFolderPath e @ [''models'', dir_name, binaryFileName]))
                  (\<lambda>_. pret JUndefined)) (\<lambda>metadata.
         pbind (plift (retrieveGGUFMetadata e metadata)) (\<lambda>updatedModel.
         if \<not> truthy defaultModel
         then pbind (log (console_error ''Unable to find default model'')) (\<lambda>_. pret JUndefined)
         else
         pbind (plift (build_model e defaultModel updatedModel dir_name
                         (JStr binaryFileName) binaryFileName binaryFileSize)) (\<lambda>model.
         pbind (writeFileSync (homeDir e @ [dir_name, modelMetadataFileName])
                  (JSON_stringify e model)) (\<lambda>_.
         pret model))))))"

subsection \<open>Import\<close>

definition importModelSymlink :: "env \<Rightarrow> path \<Rightarrow> string \<Rightarrow> path \<Rightarrow> jsval prog" where
  "importModelSymlink e modelBinaryPath modelFolderName modelFolderPath =
     pbind (fileStat modelBinaryPath) (\<lambda>fileStats.
     let binaryFileSize = size_stat fileStats;
         defaultModel = DEFAULT_MODEL e in
     if \<not> truthy defaultModel
     then pbind (log (console_error ''Unable to find default model'')) (\<lambda>_. pret JUndefined)
     else
     pbind (readGGUFHeader modelBinaryPath) (\<lambda>metadata.
     let binaryFileName = baseName modelBinaryPath in
     pbind (plift (retrieveGGUFMetadata e metadata)) (\<lambda>updatedModel.
     pbind (plift (build_model e defaultModel updatedModel modelFolderName
                     (JStr (path_string modelBinaryPath)) binaryFileName binaryFileSize)) (\<lambda>model.
     let modelFilePath = modelFolderPath @ [modelMetadataFileName] in
     pbind (writeFileSync modelFilePath (JSON_stringify e model)) (\<lambda>_.
     pret (JObj (put ''file_name'' (JStr modelMetadataFileName)
                (put ''file_path'' (JStr (path_string modelFilePath))
                (spread model [])))))))))"

definition updateModelInfo :: "env \<Rightarrow> jsval \<Rightarrow> jsval prog" where
  "updateModelInfo e modelInfo =
     pbind (plift (js_prop modelInfo ''id'')) (\<lambda>ident.
     if nullish ident then pthrow (Error ''Model ID is required'')
     else
     pbind (plift (js_prop modelInfo ''file_path'')) (\<lambda>file_path.
     pbind (pbind (path_arg file_path) readFileSync) (\<lambda>text.
     pbind (JSON_parse text) (\<lambda>model.
     pbind (plift
       (ebind (js_prop model ''parameters'') (\<lambda>mp.
        ebind (js_prop modelInfo ''parameters'') (\<lambda>ip.
        ebind (js_prop model ''settings'') (\<lambda>ms.
        ebind (js_prop modelInfo ''settings'') (\<lambda>isettings.
        ebind (js_prop model ''metadata'') (\<lambda>mm.
        ebind (js_prop modelInfo ''metadata'') (\<lambda>im.
        Inr (JObj
          (put ''file_name'' JUndefined
          (put ''file_path'' JUndefined
          (put ''metadata'' (JObj (spread im (spread mm [])))
          (put ''settings'' (JObj (spread isettings (spread ms [])))
          (put ''parameters'' (JObj (spread ip (spread mp [])))
          (spread modelInfo (spread model [])))))))))))))))) (\<lambda>updatedModel.
     pbind (pbind (path_arg file_path) (\<lambda>p. writeFileSync p (JSON_stringify e updatedModel)))
       (\<lambda>_. pret updatedModel))))))"

subsection \<open>Folder allocation\<close>

text \<open>
  The decimal rendering of a count is read back by \<open>read_nat\<close>, so two counts never
  give the same folder name; this is what makes the probing of \<open>getModelFolderName\<close>
  end on a finite file system.
\<close>

definition read_nat :: "string \<Rightarrow> nat" where
  "read_nat s = foldl (\<lambda>a c. 10 * a + (of_char c - 48)) 0 s"

lemma read_nat_snoc: "read_nat (s @ [c]) = 10 * read_nat s + (of_char c - 48)"
  by (simp add: read_nat_def)

lemma of_char_digit: "d < 10 \<Longrightarrow> (of_char (digit_char d) :: nat) = 48 + d"
  by (simp add: digit_char_def)

lemma read_show_nat: "read_nat (show_nat n) = n"
proof (induction n rule: show_nat.induct)
  case (1 n)
  show ?case
  proof (cases "n < 10")
    case True
    then show ?thesis
      by (subst show_nat.simps) (simp add: read_nat_def of_char_digit)
  next
    case False
    then have "read_nat (show_nat n) = 10 * read_nat (show_nat (n div 10)) + (of_char (digit_char (n mod 10)) - 48)"
      by (subst show_nat.simps) (simp add: read_nat_snoc)
    also have "\<dots> = 10 * (n div 10) + n mod 10"
      using 1 False by (simp add: of_char_digit)
    finally show ?thesis by simp
  qed
qed

lemma show_nat_inj: "show_nat m = show_nat n \<Longrightarrow> m = n"
  by (metis read_show_nat)

definition folder_name :: "string \<Rightarrow> nat \<Rightarrow> string" where
  "folder_name modelFolderName count =
     (if count \<noteq> 0 then modelFolderName @ ''-'' @ show_nat count else modelFolderName)"

definition count_or_zero :: "nat option \<Rightarrow> nat" where
  "count_or_zero count = (case count of None \<Rightarrow> 0 | Some n \<Rightarrow> n)"

lemma show_nat_nonempty: "show_nat n \<noteq> []"
  by (subst show_nat.simps) simp

lemma folder_name_inj: "folder_name s m = folder_name s n \<Longrightarrow> m = n"
  by (auto simp: folder_name_def show_nat_nonempty dest: show_nat_inj split: if_splits)

definition folder_path :: "env \<Rightarrow> string \<Rightarrow> nat \<Rightarrow> path" where
  "folder_path e modelFolderName count =
     janDataFolderPath e @ [''models'', folder_name modelFolderName count]"

lemma finite_taken: "finite {k. lookup f (folder_path e s k) \<noteq> None}"
proof -
  have "inj (folder_path e s)"
    by (auto simp: inj_def folder_path_def dest: folder_name_inj)
  moreover have "finite (insert [] (dom (map_of f)))"
    by (simp add: finite_dom_map_of)
  moreover have "{k. lookup f (folder_path e s k) \<noteq> None} \<subseteq> folder_path e s -` (insert [] (dom (map_of f)))"
    by (auto simp: lookup_def split: if_splits)
  ultimately show ?thesis
    by (meson finite_vimageI finite_subset)
qed

function getModelFolderName :: "env \<Rightarrow> string \<Rightarrow> nat option \<Rightarrow> path prog" where
  "getModelFolderName e modelFolderName count w =
     (let newModelFolderName = folder_name modelFolderName (count_or_zero count);
          modelFolderPath = janDataFolderPath e @ [''models'', newModelFolderName]
      in case existsSync modelFolderPath w of
           (w', Inl err) \<Rightarrow> (w', Inl err)
         | (w', Inr isFolderExist) \<Rightarrow>
             if \<not> isFolderExist then (w', Inr modelFolderPath)
             else let newCount = count_or_zero count + 1
                  in getModelFolderName e modelFolderName (Some newCount) w')"
  by pat_completeness auto
termination
proof (relation "measure (\<lambda>(e, s, count, w).
          card {k. count_or_zero count \<le> k \<and> lookup (fs w) (folder_path e s k) \<noteq> None})")
  show "wf (measure (\<lambda>(e, s, count, w).
          card {k. count_or_zero count \<le> k \<and> lookup (fs w) (folder_path e s k) \<noteq> None}))"
    by simp
next
  fix e :: env and modelFolderName count w newModelFolderName modelFolderPath x1 x2 isFolderExist newCount
  assume n: "newModelFolderName = folder_name modelFolderName (count_or_zero count)"
    and p: "modelFolderPath = janDataFolderPath e @ [''models'', newModelFolderName]"
    and ex: "(x1, x2) = existsSync modelFolderPath w" "x2 = Inr isFolderExist" "\<not> \<not> isFolderExist"
    and nc: "newCount = count_or_zero count + 1"
  let ?c = "count_or_zero count"
  from ex have w: "x1 = w" and taken: "lookup (fs w) (folder_path e modelFolderName ?c) \<noteq> None"
    by (auto simp: existsSync_def p n folder_path_def)
  let ?A = "{k. ?c \<le> k \<and> lookup (fs w) (folder_path e modelFolderName k) \<noteq> None}"
  let ?B = "{k. ?c + 1 \<le> k \<and> lookup (fs w) (folder_path e modelFolderName k) \<noteq> None}"
  have "finite ?A" using finite_taken [of "fs w" e modelFolderName] by simp
  moreover have "?B \<subseteq> ?A" by auto
  moreover have "?c \<in> ?A" "?c \<notin> ?B" using taken by auto
  ultimately have "finite ?A" "?B \<subset> ?A" by blast+
  then have "card ?B < card ?A" by (simp add: psubset_card_mono)
  then show "((e, modelFolderName, Some newCount, x1), (e, modelFolderName, count, w))
       \<in> measure (\<lambda>(e, s, count, w).
          card {k. count_or_zero count \<le> k \<and> lookup (fs w) (folder_path e s k) \<noteq> None})"
    using nc w by (simp add: count_or_zero_def)
qed

declare getModelFolderName.simps [simp del]

subsection \<open>Import of one model and of a batch\<close>

text \<open>
  The callback of the progress interval of \<open>importModel\<close> reads the size of the
  destination and emits a percentage; it runs on real time and is not part of the
  sequential trace. The interval itself is in the state from \<open>setInterval\<close> to
  \<open>clearInterval\<close>.
\<close>

datatype OptionType = SYMLINK | MOVE_BINARY_FILE

definition importModel :: "env \<Rightarrow> ImportingModel \<Rightarrow> OptionType \<Rightarrow> jsval prog" where
  "importModel e model optionType =
     (let binaryName = filter (\<lambda>c. \<not> is_space c) (baseName (path model));
          modelFolderName =
            (if endsWith binaryName supportedModelFormat
             then replace_first supportedModelFormat [] binaryName
             else binaryName)
      in
      pbind (getModelFolderName e modelFolderName None) (\<lambda>modelFolderPath.
      pbind (mkdir modelFolderPath) (\<lambda>_.
      let uniqueFolderName = baseName modelFolderPath;
          modelBinaryFile =
            (if endsWith binaryName supportedModelFormat then binaryName
             else binaryName @ supportedModelFormat);
          binaryPath = modelFolderPath @ [modelBinaryFile]
      in
      if optionType = SYMLINK
      then importModelSymlink e (path model) uniqueFolderName modelFolderPath
      else
      pbind (fileStat (path model)) (\<lambda>srcStat.
      pbind setInterval (\<lambda>interval.
      pbind (copyFile (path model) binaryPath) (\<lambda>_.
      pbind (clearInterval interval) (\<lambda>_.
      generateModelMetadata e uniqueFolderName)))))))"

fun importModels_loop ::
  "env \<Rightarrow> OptionType \<Rightarrow> ImportingModel list \<Rightarrow> jsval list \<Rightarrow> jsval list prog" where
  "importModels_loop e optionType [] importedModels = pret importedModels"
| "importModels_loop e optionType (model # models) importedModels =
     pbind (emit (onLocalImportModelUpdate model)) (\<lambda>_.
     pbind (pcatch
              (pbind (importModel e model optionType) (\<lambda>importedModel.
               pbind (plift (js_prop importedModel ''id'')) (\<lambda>modelId.
               pbind (emit (onLocalImportModelSuccess model modelId)) (\<lambda>_.
               pret (importedModels @ [importedModel])))))
              (\<lambda>err. pbind (emit (onLocalImportModelFailed model err)) (\<lambda>_.
               pret importedModels)))
       (\<lambda>importedModels'. importModels_loop e optionType models importedModels'))"

definition importModels :: "env \<Rightarrow> ImportingModel list \<Rightarrow> OptionType \<Rightarrow> unit prog" where
  "importModels e models optionType =
     pbind (importModels_loop e optionType models [])
       (\<lambda>importedModels. emit (onLocalImportModelFinished importedModels))"

subsection \<open>Polling of the remote download progress\<close>

text \<open>
  \<open>startPollingDownloadProgress\<close> waits three seconds and then asks the progress
  endpoint of the model once per tick of an interval. What one request gives: the
  promise of \<open>fetch\<close> or of \<open>res.json()\<close> rejects, or the body is read as a value.
  The endpoint is the sequence of these outcomes, in the order in which they are
  observed.
\<close>

datatype response = fetch_rejected | fetch_json jsval

text \<open>
  The \<open>then\<close> callback of a tick. The result says whether it has resolved the promise
  of \<open>startPollingDownloadProgress\<close>.
\<close>

definition on_response :: "nat \<Rightarrow> jsval \<Rightarrow> bool prog" where
  "on_response interval state =
     pbind (plift (js_prop state ''downloadState'')) (\<lambda>downloadState.
     if downloadState = JStr ''end''
     then pbind (emit (onFileDownloadSuccess state)) (\<lambda>_.
          pbind (clearInterval interval) (\<lambda>_. pret True))
     else
     pbind (plift (js_prop state ''downloadState'')) (\<lambda>downloadState'.
     if downloadState' = JStr ''error''
     then pbind (emit (onFileDownloadError state)) (\<lambda>_.
          pbind (clearInterval interval) (\<lambda>_. pret True))
     else pbind (emit (onFileDownloadUpdate state)) (\<lambda>_. pret False)))"

text \<open>
  A tick of the interval. Nothing handles a rejection of the request or an exception of
  the callback: the tick then has no effect.
\<close>

definition poll_tick :: "nat \<Rightarrow> response \<Rightarrow> bool prog" where
  "poll_tick interval r =
     (case r of
        fetch_rejected \<Rightarrow> pret False
      | fetch_json state \<Rightarrow> pcatch (on_response interval state) (\<lambda>_. pret False))"

text \<open>
  The ticks follow one another until one resolves the promise. The result is \<open>None\<close>
  when none ever does.
\<close>

partial_function (option) poll_loop ::
  "(nat \<Rightarrow> response) \<Rightarrow> nat \<Rightarrow> nat \<Rightarrow> world \<Rightarrow> world option" where
  "poll_loop responses n interval w =
     (let r = poll_tick interval (responses n) w in
      if snd r = Inr True then Some (fst r)
      else poll_loop responses (Suc n) interval (fst r))"

definition startPollingDownloadProgress :: "(nat \<Rightarrow> response) \<Rightarrow> world \<Rightarrow> world option" where
  "startPollingDownloadProgress responses w =
     (let started = setInterval w in
      case snd started of
        Inl err \<Rightarrow> None
      | Inr interval \<Rightarrow> poll_loop responses 0 interval (fst started))"

text \<open>
  The words of the specification for the polling: a state is terminal when its
  \<open>downloadState\<close> is \<open>end\<close> or \<open>error\<close>; \<open>end\<close> is reported as a success event,
  \<open>error\<close> as an error event and every other state as an update event. A request that
  is rejected, or whose body has no properties to read, reports nothing.
\<close>

definition terminal_state :: "jsval \<Rightarrow> bool" where
  "terminal_state state =
     (js_prop state ''downloadState'' = Inr (JStr ''end'')
      \<or> js_prop state ''downloadState'' = Inr (JStr ''error''))"

fun terminal :: "response \<Rightarrow> bool" where
  "terminal fetch_rejected = False"
| "terminal (fetch_json state) = terminal_state state"

definition event_of :: "jsval \<Rightarrow> event" where
  "event_of state =
     (if js_prop state ''downloadState'' = Inr (JStr ''end'') then onFileDownloadSuccess state
      else if js_prop state ''downloadState'' = Inr (JStr ''error'') then onFileDownloadError state
      else onFileDownloadUpdate state)"

fun response_events :: "response \<Rightarrow> event list" where
  "response_events fetch_rejected = []"
| "response_events (fetch_json state) = (if nullish state then [] else [event_of state])"

text \<open>
  The words of the specification for synthesis: a binary of a folder is an entry with the
  supported extension that is a file.
\<close>

definition is_binary :: "filesystem \<Rightarrow> path \<Rightarrow> string \<Rightarrow> bool" where
  "is_binary f dir name =
     (endsWith name supportedModelFormat
      \<and> (case lookup f (dir @ [name]) of Some (File c) \<Rightarrow> True | _ \<Rightarrow> False))"

text \<open>The value that a call returns, \<open>undefined\<close> when it throws.\<close>

definition result_value :: "error + jsval \<Rightarrow> jsval" where
  "result_value r = (case r of Inl _ \<Rightarrow> JUndefined | Inr v \<Rightarrow> v)"

text \<open>
  The words of the specification for the batch import. The attempt on one item is the
  awaited import together with the read of the id of what it returned; it succeeds with
  a descriptor and its id or fails with an error. \<open>batch_run\<close> lists the items with
  the outcomes of their attempts, each made in the state that the items before it have
  left. An item reports an update event and then the event of its outcome; the imported
  descriptors are those of the successful attempts.
\<close>

definition import_attempt :: "env \<Rightarrow> OptionType \<Rightarrow> ImportingModel \<Rightarrow> (jsval \<times> jsval) prog" where
  "import_attempt e optionType model =
     pbind (importModel e model optionType) (\<lambda>importedModel.
     pbind (plift (js_prop importedModel ''id'')) (\<lambda>modelId.
     pret (importedModel, modelId)))"

fun outcome_event :: "ImportingModel \<Rightarrow> error + jsval \<times> jsval \<Rightarrow> event" where
  "outcome_event model (Inl err) = onLocalImportModelFailed model err"
| "outcome_event model (Inr (importedModel, modelId)) = onLocalImportModelSuccess model modelId"

fun batch_run ::
  "env \<Rightarrow> OptionType \<Rightarrow> ImportingModel list \<Rightarrow> world
   \<Rightarrow> (ImportingModel \<times> (error + jsval \<times> jsval)) list" where
  "batch_run e optionType [] w = []"
| "batch_run e optionType (model # models) w =
     (let r = import_attempt e optionType model (w\<lparr>events := events w @ [onLocalImportModelUpdate model]\<rparr>)
      in (model, snd r)
         # batch_run e optionType models
             ((fst r)\<lparr>events := events (fst r) @ [outcome_event model (snd r)]\<rparr>))"

fun item_events :: "ImportingModel \<times> (error + jsval \<times> jsval) \<Rightarrow> event list" where
  "item_events (model, r) = [onLocalImportModelUpdate model, outcome_event model r]"

fun imported_of :: "(ImportingModel \<times> (error + jsval \<times> jsval)) list \<Rightarrow> jsval list" where
  "imported_of [] = []"
| "imported_of ((model, Inl err) # rs) = imported_of rs"
| "imported_of ((model, Inr (importedModel, modelId)) # rs) = importedModel # imported_of rs"

text \<open>An operation that emits no event.\<close>

definition keeps_events :: "'a prog \<Rightarrow> bool" where
  "keeps_events m = (\<forall>w. events (fst (m w)) = events w)"

section \<open>Example inputs\<close>

definition example_env :: env where
  "example_env =
     \<lparr>DEFAULT_MODEL =
        JObj [(''object'', JStr ''model''),
              (''settings'', JObj [(''prompt_template'', JStr ''{prompt}'')]),
              (''parameters'', JObj [(''stop'', JArr [JStr ''</s>''])])],
      renderJinjaTemplate = (\<lambda>_. None),
      now = 1700000000,
      janDataFolderPath = [''jan''],
      jsonLength = (\<lambda>_. 2)\<rparr>"

definition assistants_configuration :: RouteConfiguration where
  "assistants_configuration =
     \<lparr>dirName = ''assistants'', metadataFileName = ''assistant.json'',
      delete_object = ''assistant''\<rparr>"

definition assistants_world :: world where
  "assistants_world =
     \<lparr>fs = [([''jan''], Dir),
            ([''jan'', ''assistants''], Dir),
            ([''jan'', ''assistants'', ''jan''], Dir),
            ([''jan'', ''assistants'', ''jan'', ''assistant.json''],
               File \<lparr>fsize = 13, header = None, json = Some (JObj [(''id'', JStr ''jan'')])\<rparr>),
            ([''jan'', ''assistants'', ''bob''], Dir),
            ([''jan'', ''assistants'', ''bob'', ''assistant.json''],
               File \<lparr>fsize = 13, header = None, json = Some (JObj [(''id'', JStr ''bob'')])\<rparr>)],
      events = [], timers = [], next_timer = 0, console = []\<rparr>"

definition models_world :: world where
  "models_world =
     \<lparr>fs = [([''jan''], Dir),
            ([''jan'', ''models''], Dir),
            ([''jan'', ''models'', ''foo''], Dir),
            ([''jan'', ''models'', ''foo-1''], Dir)],
      events = [], timers = [], next_timer = 0, console = []\<rparr>"

definition stored_descriptor :: jsval where
  "stored_descriptor =
     JObj [(''id'', JStr ''m''),
           (''settings'', JObj [(''ctx_len'', JNum 4096), (''ngl'', JNum 33),
                                (''prompt_template'', JStr ''{prompt}'')]),
           (''parameters'', JObj [(''stop'', JArr [JStr ''</s>''])]),
           (''metadata'', JObj [(''author'', JStr ''User''), (''size'', JNum 10)])]"

definition stored_world :: world where
  "stored_world =
     \<lparr>fs = [([''jan''], Dir),
            ([''jan'', ''models''], Dir),
            ([''jan'', ''models'', ''m''], Dir),
            ([''jan'', ''models'', ''m'', ''model.json''],
               File \<lparr>fsize = 200, header = None, json = Some stored_descriptor\<rparr>)],
      events = [], timers = [], next_timer = 0, console = []\<rparr>"

definition settings_update :: jsval where
  "settings_update =
     JObj [(''id'', JStr ''m''),
           (''file_path'', JStr ''jan/models/m/model.json''),
           (''file_name'', JStr ''model.json''),
           (''settings'', JObj [(''ctx_len'', JNum 8192)])]"

definition downloading :: response where
  "downloading = fetch_json (JObj [(''modelId'', JStr ''m''), (''downloadState'', JStr ''downloading'')])"

definition ended :: response where
  "ended = fetch_json (JObj [(''modelId'', JStr ''m''), (''downloadState'', JStr ''end'')])"

definition import_world :: world where
  "import_world =
     \<lparr>fs = [([''jan''], Dir),
            ([''jan'', ''models''], Dir),
            ([''home''], Dir),
            ([''home'', ''a.gguf''],
               File \<lparr>fsize = 10, header = Some (JObj [(''llama.block_count'', JNum 32)]), json = None\<rparr>),
            ([''home'', ''c.gguf''],
               File \<lparr>fsize = 20, header = Some (JObj [(''llama.block_count'', JNum 40)]), json = None\<rparr>),
            ([''home'', ''folder.gguf''], Dir)],
      events = [], timers = [], next_timer = 0, console = []\<rparr>"

definition synthesis_world :: world where
  "synthesis_world =
     \<lparr>fs = [([''jan''], Dir),
            ([''jan'', ''models''], Dir),
            ([''jan'', ''models'', ''empty''], Dir),
            ([''jan'', ''models'', ''empty'', ''notes.txt''],
               File \<lparr>fsize = 5, header = None, json = None\<rparr>),
            ([''jan'', ''models'', ''m''], Dir),
            ([''jan'', ''models'', ''m'', ''readme.txt''],
               File \<lparr>fsize = 5, header = None, json = None\<rparr>),
            ([''jan'', ''models'', ''m'', ''c.gguf''],
               File \<lparr>fsize = 20, header = Some (JObj [(''llama.block_count'', JNum 40)]), json = None\<rparr>),
            ([''jan'', ''models'', ''m'', ''a.gguf''], Dir),
            ([''jan'', ''models'', ''m'', ''b.gguf''],
               File \<lparr>fsize = 30, header = Some (JObj [(''llama.block_count'', JNum 32)]), json = None\<rparr>),
            ([''jan'', ''models'', ''broken''], Dir),
            ([''jan'', ''models'', ''broken'', ''x.gguf''],
               File \<lparr>fsize = 7, header = None, json = None\<rparr>)],
      events = [], timers = [], next_timer = 0, console = []\<rparr>"

definition three_models :: "ImportingModel list" where
  "three_models =
     [\<lparr>importId = ''1'', path = [''home'', ''a.gguf'']\<rparr>,
      \<lparr>importId = ''2'', path = [''home'', ''b.gguf'']\<rparr>,
      \<lparr>importId = ''3'', path = [''home'', ''c.gguf'']\<rparr>]"

definition misnamed_world :: world where
  "misnamed_world =
     \<lparr>fs = [([''jan''], Dir),
            ([''jan'', ''assistants''], Dir),
            ([''jan'', ''assistants'', ''alice''], Dir),
            ([''jan'', ''assistants'', ''alice'', ''assistant.json''],
               File \<lparr>fsize = 13, header = None, json = Some (JObj [(''id'', JStr ''bob'')])\<rparr>),
            ([''jan'', ''assistants'', ''up''], Dir),
            ([''jan'', ''assistants'', ''up'', ''assistant.json''],
               File \<lparr>fsize = 12, header = None, json = Some (JObj [(''id'', JStr ''..'')])\<rparr>)],
      events = [], timers = [], next_timer = 0, console = []\<rparr>"

section \<open>Laws of sequencing\<close>

lemma pbind_pret [simp]: "pbind (pret x) f = f x"
  by (simp add: pbind_def pret_def)

lemma pbind_pthrow [simp]: "pbind (pthrow err) f = pthrow err"
  by (simp add: pbind_def pthrow_def)

lemma plift_Inr [simp]: "plift (Inr x) = pret x"
  by (simp add: plift_def pret_def)

lemma plift_Inl [simp]: "plift (Inl err) = pthrow err"
  by (simp add: plift_def pthrow_def)

lemma pcatch_pret [simp]: "pcatch (pret x) h = pret x"
  by (simp add: pcatch_def pret_def)

lemma pcatch_pthrow [simp]: "pcatch (pthrow err) h = h err"
  by (simp add: pcatch_def pthrow_def)

lemma ebind_Inr [simp]: "ebind (Inr x) f = f x"
  by (simp add: ebind_def)

lemma ebind_Inl [simp]: "ebind (Inl err) f = Inl err"
  by (simp add: ebind_def)

lemma js_prop_not_nullish: "\<not> nullish v \<Longrightarrow> \<exists>x. js_prop v k = Inr x"
  by (cases v) (auto split: option.splits)

lemma prop_of_JObj: "prop_of (JObj kvs) k = (case map_of kvs k of None \<Rightarrow> JUndefined | Some v \<Rightarrow> v)"
  by (simp add: prop_of_def split: option.splits)

lemma js_prop_prop_of: "\<not> nullish v \<Longrightarrow> js_prop v k = Inr (prop_of v k)"
  by (cases v) (auto simp: prop_of_def split: option.splits)

section \<open>The update of a descriptor needs an id\<close>

text \<open>
  Claim C10. When the \<open>id\<close> of the partial model info is \<open>null\<close> or \<open>undefined\<close>,
  \<open>updateModelInfo\<close> throws the error \<open>Model ID is required\<close> and leaves the state
  as it was. The equation holds for every file system, also one where the descriptor
  file is missing or unreadable: the check comes before any read or write.
\<close>

theorem updateModelInfo_id_required:
  assumes "js_prop modelInfo ''id'' = Inr ident" and "nullish ident"
  shows "updateModelInfo e modelInfo w = (w, Inl (Error ''Model ID is required''))"
  using assms by (simp add: updateModelInfo_def pthrow_def)

theorem updateModelInfo_id_required_witness:
  "updateModelInfo example_env (JObj [(''settings'', JObj [(''ctx_len'', JNum 8192)])])
     assistants_world
   = (assistants_world, Inl (Error ''Model ID is required''))"
  using updateModelInfo_id_required
    [of "JObj [(''settings'', JObj [(''ctx_len'', JNum 8192)])]" JUndefined example_env assistants_world]
  by simp

section \<open>The protected assistant\<close>











text \<open>
  The id is joined to the registry folder as a path. A descriptor with the id \<open>..\<close>
  names the data folder itself, which is then removed with all that is below it.
\<close>

lemma deleteBuilder_parent_id:
  "deleteBuilder example_env assistants_configuration ''..'' misnamed_world
   = (misnamed_world\<lparr>fs := []\<rparr>,
      Inr (JObj [(''id'', JStr ''..''), (''object'', JStr ''assistant''), (''deleted'', JBool True)]))"
  by code_simp

section \<open>Context length and layer count\<close>

text \<open>
  Claim C3. A header of the architecture \<open>qwen2\<close> that reports the block count 32 and
  declares the end-of-sequence id 2 without a token table: the claim asks for settings
  with \<open>ngl\<close> 33 and \<open>ctx_len\<close> 4096. The call throws a TypeError in the resolution of
  the stop token, after the settings are computed, and returns no settings at all.
\<close>

theorem retrieveGGUFMetadata_settings_lost_without_token_table:
  "retrieveGGUFMetadata example_env
     (JObj [(''general.architecture'', JStr ''qwen2''),
            (''qwen2.block_count'', JNum 32),
            (''tokenizer.ggml.eos_token_id'', JNum 2)])
   = Inl TypeError"
  by code_simp

text \<open>With the token table in the header, the same header gives the settings of the claim.\<close>

lemma retrieveGGUFMetadata_settings_with_token_table:
  "retrieveGGUFMetadata example_env
     (JObj [(''general.architecture'', JStr ''qwen2''),
            (''qwen2.block_count'', JNum 32),
            (''tokenizer.ggml.eos_token_id'', JNum 2),
            (''tokenizer.ggml.tokens'', JArr [JStr ''<s>'', JStr ''<unk>'', JStr ''</s>''])])
   = Inr (JObj [(''settings'',
                 JObj [(''prompt_template'', JStr ''{prompt}''),
                       (''ctx_len'', JNum 4096),
                       (''ngl'', JNum 33)]),
                (''parameters'', JObj [(''stop'', JArr [JStr ''</s>''])])])"
  by code_simp

text \<open>
  Wherever the stop token is resolved and the default descriptor has \<open>settings\<close> and
  \<open>parameters\<close>, the call returns settings whose \<open>ctx_len\<close> is the value under the
  architecture-qualified context-length key if present, else the value under
  \<open>llama.context_length\<close> if present, else 4096, and whose \<open>ngl\<close> is the value under
  the architecture-qualified block-count key if present, else under
  \<open>llama.block_count\<close> if present, else 32, plus 1. The sum is that of doubles: it is
  exact below \<open>2^53\<close>.
\<close>

lemma qualified_key_string: "qualified_key v field = js_to_string v @ ''.'' @ field"
  by (cases v) (simp_all add: qualified_key_def)

lemma js_add_exact:
  "\<bar>x + y\<bar> < 9007199254740992 \<Longrightarrow> js_add (JNum x) (JNum y) = JNum (x + y)"
  by (simp add: js_add_def number_of_def)

lemma retrieveGGUFMetadata_settings:
  assumes md: "\<not> nullish metadata"
    and ds: "js_prop (DEFAULT_MODEL e) ''settings'' = Inr ds" "\<not> nullish ds"
    and dp: "js_prop (DEFAULT_MODEL e) ''parameters'' = Inr dp" "\<not> nullish dp"
    and tokens: "truthy (prop_of metadata ''tokenizer.ggml.eos_token_id'') \<longrightarrow>
                 \<not> nullish (prop_of metadata ''tokenizer.ggml.tokens'')"
    and arch: "architecture = prop_of metadata ''general.architecture''"
  shows "\<exists>prompt_template stop.
           retrieveGGUFMetadata e metadata
           = Inr (JObj [(''settings'',
                         JObj [(''prompt_template'', prompt_template),
                               (''ctx_len'',
                                first_present
                                  [prop_of metadata (qualified_key architecture ''context_length''),
                                   prop_of metadata ''llama.context_length''] (JNum 4096)),
                               (''ngl'',
                                js_add
                                  (first_present
                                     [prop_of metadata (qualified_key architecture ''block_count''),
                                      prop_of metadata ''llama.block_count''] (JNum 32))
                                  (JNum 1))]),
                        (''parameters'', JObj [(''stop'', stop)])])"
proof -
  let ?eos = "prop_of metadata ''tokenizer.ggml.eos_token_id''"
  let ?tokens = "prop_of metadata ''tokenizer.ggml.tokens''"
  note read = js_prop_prop_of [OF md]
  obtain pt0 where pt0: "js_prop ds ''prompt_template'' = Inr pt0"
    using js_prop_not_nullish [OF ds(2)] by blast
  obtain st0 where st0: "js_prop dp ''stop'' = Inr st0"
    using js_prop_not_nullish [OF dp(2)] by blast
  have keys: "js_to_string architecture @ ''.context_length''
              = qualified_key architecture ''context_length''"
    "js_to_string architecture @ ''.block_count'' = qualified_key architecture ''block_count''"
    by (simp_all add: qualified_key_string)
  have settings: "\<exists>pt. gguf_settings e metadata architecture
        = Inr (JObj [(''prompt_template'', pt),
                     (''ctx_len'',
                      first_present
                        [prop_of metadata (qualified_key architecture ''context_length''),
                         prop_of metadata ''llama.context_length''] (JNum 4096)),
                     (''ngl'',
                      js_add
                        (first_present
                           [prop_of metadata (qualified_key architecture ''block_count''),
                            prop_of metadata ''llama.block_count''] (JNum 32))
                        (JNum 1))])"
    using ds pt0
    by (simp only: gguf_settings_def keys read)
       (simp add: Let_def ebind_def coalesce_def first_present_def)
  have params: "\<exists>stop. gguf_parameters e metadata ?eos = Inr (JObj [(''stop'', stop)])"
  proof (cases "truthy ?eos")
    case True
    then obtain t where "js_prop ?tokens (js_to_string ?eos) = Inr t"
      using tokens js_prop_not_nullish by blast
    then show ?thesis
      using True md by (simp add: gguf_parameters_def ebind_def coalesce_def read)
  next
    case False
    then show ?thesis
      using dp st0 by (simp add: gguf_parameters_def ebind_def)
  qed
  from settings params show ?thesis
    by (auto simp: retrieveGGUFMetadata_def ebind_def read arch)
qed

section \<open>The stop token\<close>

text \<open>
  Claim C2. A header that declares the end-of-sequence id 2 and has no token table: the
  claim asks for the stop list of the default descriptor and for no exception. The call
  throws a TypeError: the token table is \<open>undefined\<close> and is indexed all the same.
\<close>

theorem retrieveGGUFMetadata_without_token_table:
  "retrieveGGUFMetadata example_env (JObj [(''tokenizer.ggml.eos_token_id'', JNum 2)])
   = Inl TypeError"
  by code_simp

text \<open>
  A header that declares the end-of-sequence id 0 and has a token table: the id counts as
  absent and the stop list is that of the default descriptor, not the token at index 0.
\<close>

lemma retrieveGGUFMetadata_eos_zero:
  "retrieveGGUFMetadata example_env
     (JObj [(''tokenizer.ggml.eos_token_id'', JNum 0),
            (''tokenizer.ggml.tokens'', JArr [JStr ''<eos>'', JStr ''a''])])
   = Inr (JObj [(''settings'',
                 JObj [(''prompt_template'', JStr ''{prompt}''),
                       (''ctx_len'', JNum 4096),
                       (''ngl'', JNum 33)]),
                (''parameters'', JObj [(''stop'', JArr [JStr ''</s>''])])])"
  by code_simp

section \<open>The folder allocator\<close>

lemma getModelFolderName_probe:
  assumes "count_or_zero count \<le> n"
    and "\<forall>k. count_or_zero count \<le> k \<and> k < n \<longrightarrow> lookup (fs w) (folder_path e s k) \<noteq> None"
    and "lookup (fs w) (folder_path e s n) = None"
  shows "getModelFolderName e s count w = (w, Inr (folder_path e s n))"
  using assms
proof (induction "n - count_or_zero count" arbitrary: count)
  case 0
  then have "count_or_zero count = n" by simp
  with 0 show ?case
    by (subst getModelFolderName.simps) (simp add: existsSync_def folder_path_def Let_def)
next
  case (Suc d)
  then have lt: "count_or_zero count < n" by simp
  with Suc.prems have taken: "lookup (fs w) (folder_path e s (count_or_zero count)) \<noteq> None"
    by simp
  have "getModelFolderName e s (Some (count_or_zero count + 1)) w = (w, Inr (folder_path e s n))"
  proof (rule Suc.hyps(1))
    show "d = n - count_or_zero (Some (count_or_zero count + 1))"
      using Suc.hyps(2) by (simp add: count_or_zero_def)
    show "count_or_zero (Some (count_or_zero count + 1)) \<le> n"
      using lt by (simp add: count_or_zero_def)
    show "\<forall>k. count_or_zero (Some (count_or_zero count + 1)) \<le> k \<and> k < n \<longrightarrow>
             lookup (fs w) (folder_path e s k) \<noteq> None"
      using Suc.prems(2) by (simp add: count_or_zero_def)
    show "lookup (fs w) (folder_path e s n) = None" by (rule Suc.prems(3))
  qed
  with taken show ?case
    by (subst getModelFolderName.simps) (auto simp: existsSync_def folder_path_def Let_def)
qed

lemma some_folder_unused: "\<exists>n. lookup f (folder_path e s n) = None"
proof (rule ccontr)
  assume "\<not> (\<exists>n. lookup f (folder_path e s n) = None)"
  then have "{k. lookup f (folder_path e s k) \<noteq> None} = UNIV" by auto
  with finite_taken [of f e s] show False by simp
qed

text \<open>
  Claim C6. \<open>getModelFolderName\<close> returns, without changing the state, the path of the
  first name in the sequence \<open>name\<close>, \<open>name-1\<close>, \<open>name-2\<close>, ... under the models
  folder at which nothing exists: the returned path does not exist at the time of the
  probe and every earlier path of the sequence does. It always returns. With \<open>foo\<close>
  and \<open>foo-1\<close> present, the name \<open>foo\<close> gives \<open>foo-2\<close>.
\<close>

theorem getModelFolderName_first_unused:
  "\<exists>n. getModelFolderName e modelFolderName None w = (w, Inr (folder_path e modelFolderName n))
       \<and> lookup (fs w) (folder_path e modelFolderName n) = None
       \<and> (\<forall>k<n. lookup (fs w) (folder_path e modelFolderName k) \<noteq> None)"
proof -
  define n where "n = (LEAST n. lookup (fs w) (folder_path e modelFolderName n) = None)"
  have free: "lookup (fs w) (folder_path e modelFolderName n) = None"
    unfolding n_def using some_folder_unused by (rule LeastI_ex)
  have taken: "\<forall>k<n. lookup (fs w) (folder_path e modelFolderName k) \<noteq> None"
    unfolding n_def using not_less_Least by blast
  have "getModelFolderName e modelFolderName None w = (w, Inr (folder_path e modelFolderName n))"
    using taken free by (intro getModelFolderName_probe) (simp_all add: count_or_zero_def)
  with free taken show ?thesis by blast
qed

theorem getModelFolderName_first_unused_witness:
  "getModelFolderName example_env ''foo'' None models_world
   = (models_world, Inr [''jan'', ''models'', ''foo-2''])"
proof -
  obtain n where r: "getModelFolderName example_env ''foo'' None models_world
                     = (models_world, Inr (folder_path example_env ''foo'' n))"
    and free: "lookup (fs models_world) (folder_path example_env ''foo'' n) = None"
    and taken: "\<forall>k<n. lookup (fs models_world) (folder_path example_env ''foo'' k) \<noteq> None"
    using getModelFolderName_first_unused [of example_env "''foo''" models_world] by blast
  have t0: "lookup (fs models_world) (folder_path example_env ''foo'' 0) \<noteq> None" by code_simp
  have t1: "lookup (fs models_world) (folder_path example_env ''foo'' 1) \<noteq> None" by code_simp
  have f2: "lookup (fs models_world) (folder_path example_env ''foo'' 2) = None" by code_simp
  have "n \<noteq> 0" using free t0 by (intro notI) simp
  moreover have "n \<noteq> 1" using free t1 by (intro notI) simp
  moreover have "\<not> 2 < n" using taken f2 by blast
  ultimately have "n = 2" by arith
  moreover have "folder_path example_env ''foo'' 2 = [''jan'', ''models'', ''foo-2'']" by code_simp
  ultimately show ?thesis using r by simp
qed

section \<open>Merging an update into a stored descriptor\<close>

lemma distinct_show_nat_upt: "distinct (map show_nat [0..<n])"
  by (simp add: distinct_map inj_on_def show_nat_inj)

lemma distinct_js_spread: "distinct (map fst (js_spread v))"
  by (cases v) (simp_all add: distinct_clearjunk distinct_show_nat_upt)

lemma map_of_fold_update:
  "map_of (fold (\<lambda>(k, x). AList.update k x) xs ps) k
   = (case map_of (rev xs) k of None \<Rightarrow> map_of ps k | Some v \<Rightarrow> Some v)"
proof (induction xs arbitrary: ps)
  case Nil
  then show ?case by simp
next
  case (Cons a xs)
  obtain k' v' where a: "a = (k', v')" by (cases a)
  show ?case
    by (simp add: a Cons.IH update_conv' map_add_def split: option.splits)
qed

lemma map_of_rev_distinct: "distinct (map fst xs) \<Longrightarrow> map_of (rev xs) = map_of xs"
  by (subst map_of_inject_set) (simp_all add: rev_map [symmetric])

lemma map_of_spread:
  "map_of (spread v ps) k = (case own_property v k of None \<Rightarrow> map_of ps k | Some x \<Rightarrow> Some x)"
proof -
  have "map_of (rev (js_spread v)) = map_of (js_spread v)"
    using distinct_js_spread by (rule map_of_rev_distinct)
  then show ?thesis
    by (simp add: spread_def own_property_def map_of_fold_update)
qed

lemma distinct_fold_update:
  "distinct (map fst ps) \<Longrightarrow> distinct (map fst (fold (\<lambda>(k, x). AList.update k x) xs ps))"
  by (induction xs arbitrary: ps) (auto simp: distinct_update)

lemma distinct_spread: "distinct (map fst ps) \<Longrightarrow> distinct (map fst (spread v ps))"
  by (simp add: spread_def distinct_fold_update)

lemma distinct_put: "distinct (map fst ps) \<Longrightarrow> distinct (map fst (put k v ps))"
  by (simp add: put_def distinct_update)

lemma map_of_put: "map_of (put k v ps) = (map_of ps)(k \<mapsto> v)"
  by (simp add: put_def update_conv')

lemma own_property_JObj: "own_property (JObj kvs) k = map_of kvs k"
  by (simp add: own_property_def map_of_clearjunk)

lemma map_of_norm_undefined:
  "distinct (map fst kvs) \<Longrightarrow> map_of kvs k = Some JUndefined \<Longrightarrow>
   map_of (concat (map (\<lambda>kv. if snd kv = JUndefined then [] else [(fst kv, json_norm (snd kv))]) kvs)) k
   = None"
proof (induction kvs)
  case Nil
  then show ?case by simp
next
  case (Cons a kvs)
  have absent: "\<And>l. k \<notin> fst ` set l \<Longrightarrow>
      map_of (concat (map (\<lambda>kv. if snd kv = JUndefined then [] else [(fst kv, json_norm (snd kv))]) l)) k
      = None"
    by (rule map_of_eq_None_iff [THEN iffD2]) (force split: if_splits)
  show ?case
  proof (cases "fst a = k")
    case True
    with Cons.prems have "snd a = JUndefined" "k \<notin> fst ` set kvs"
      by (auto simp: image_iff)
    then show ?thesis by (simp add: absent)
  next
    case False
    with Cons show ?thesis by (cases a) (auto split: if_splits)
  qed
qed

lemma persisted_without:
  "distinct (map fst kvs) \<Longrightarrow> map_of kvs k = Some JUndefined \<Longrightarrow>
   own_property (json_norm (JObj kvs)) k = None"
  by (simp add: own_property_JObj map_of_norm_undefined)

text \<open>
  Claim C7. For a partial update that has an id and the path of a stored descriptor,
  \<open>updateModelInfo\<close> writes back and returns a descriptor in which each of
  \<open>settings\<close>, \<open>parameters\<close> and \<open>metadata\<close> holds every property of the update
  and, under every key that the update does not give, the property of the stored
  descriptor: a nested object is merged, not replaced. The JSON text written to the
  file has neither a \<open>file_path\<close> nor a \<open>file_name\<close> property.
\<close>

theorem updateModelInfo_merges:
  assumes ident: "js_prop modelInfo ''id'' = Inr ident" "\<not> nullish ident"
    and fp: "js_prop modelInfo ''file_path'' = Inr (JStr file_path)"
    and stored: "lookup (fs w) (split_path file_path) = Some (File c)" "json c = Some model"
                "\<not> nullish model"
    and parent: "is_dir (fs w) (butlast (split_path file_path))"
  shows "\<exists>updatedModel.
           updateModelInfo e modelInfo w
           = (w\<lparr>fs := AList.update (split_path file_path)
                        (File (JSON_stringify e updatedModel)) (fs w)\<rparr>,
              Inr updatedModel)
         \<and> (\<forall>part \<in> {''settings'', ''parameters'', ''metadata''}. \<forall>k.
               own_property (prop_of updatedModel part) k
               = (case own_property (prop_of modelInfo part) k of
                    None \<Rightarrow> own_property (prop_of model part) k
                  | Some v \<Rightarrow> Some v))
         \<and> own_property (json_norm updatedModel) ''file_path'' = None
         \<and> own_property (json_norm updatedModel) ''file_name'' = None"
proof -
  have info: "\<not> nullish modelInfo"
    using ident(1) by (cases modelInfo) auto
  define merged where "merged part = JObj (spread (prop_of modelInfo part) (spread (prop_of model part) []))" for part
  define base where "base = spread modelInfo (spread model [])"
  define kvs where "kvs =
     put ''file_name'' JUndefined
       (put ''file_path'' JUndefined
         (put ''metadata'' (merged ''metadata'')
           (put ''settings'' (merged ''settings'')
             (put ''parameters'' (merged ''parameters'') base))))"
  have can: "can_create (fs w) (split_path file_path)"
    using stored(1) parent by (auto simp: can_create_def is_dir_def lookup_def split: if_splits)
  have run: "updateModelInfo e modelInfo w
      = (w\<lparr>fs := AList.update (split_path file_path) (File (JSON_stringify e (JObj kvs))) (fs w)\<rparr>,
         Inr (JObj kvs))"
    using ident fp stored can
    by (simp add: updateModelInfo_def js_prop_prop_of [OF info] js_prop_prop_of [OF stored(3)]
        path_arg_def readFileSync_def writeFileSync_def JSON_parse_def pbind_def pret_def
        kvs_def merged_def base_def)
  have dist: "distinct (map fst kvs)"
    by (simp add: kvs_def base_def distinct_put distinct_spread)
  have parts: "\<forall>part \<in> {''settings'', ''parameters'', ''metadata''}. prop_of (JObj kvs) part = merged part"
    by (simp add: prop_of_JObj kvs_def map_of_put)
  have frame: "\<forall>part \<in> {''settings'', ''parameters'', ''metadata''}. \<forall>k.
       own_property (prop_of (JObj kvs) part) k
       = (case own_property (prop_of modelInfo part) k of
            None \<Rightarrow> own_property (prop_of model part) k
          | Some v \<Rightarrow> Some v)"
  proof (intro ballI allI)
    fix part k
    assume "part \<in> {''settings'', ''parameters'', ''metadata''}"
    with parts have "prop_of (JObj kvs) part = merged part" by blast
    then show "own_property (prop_of (JObj kvs) part) k
       = (case own_property (prop_of modelInfo part) k of
            None \<Rightarrow> own_property (prop_of model part) k
          | Some v \<Rightarrow> Some v)"
      by (simp add: merged_def own_property_JObj map_of_spread split: option.splits)
  qed
  have "map_of kvs ''file_path'' = Some JUndefined" "map_of kvs ''file_name'' = Some JUndefined"
    by (simp_all add: kvs_def map_of_put)
  with dist have "own_property (json_norm (JObj kvs)) ''file_path'' = None"
    "own_property (json_norm (JObj kvs)) ''file_name'' = None"
    by (simp_all only: persisted_without)
  with run frame show ?thesis by blast
qed

theorem updateModelInfo_merges_witness:
  "\<exists>updatedModel w'.
     updateModelInfo example_env settings_update stored_world = (w', Inr updatedModel)
     \<and> lookup (fs w') [''jan'', ''models'', ''m'', ''model.json'']
         = Some (File (JSON_stringify example_env updatedModel))
     \<and> own_property (prop_of updatedModel ''settings'') ''ctx_len'' = Some (JNum 8192)
     \<and> own_property (prop_of updatedModel ''settings'') ''ngl'' = Some (JNum 33)
     \<and> own_property (prop_of updatedModel ''settings'') ''prompt_template'' = Some (JStr ''{prompt}'')
     \<and> own_property (json_norm updatedModel) ''file_path'' = None
     \<and> own_property (json_norm updatedModel) ''file_name'' = None"
proof -
  have a: "js_prop settings_update ''id'' = Inr (JStr ''m'')" by code_simp
  have b: "\<not> nullish (JStr ''m'')" by simp
  have c: "js_prop settings_update ''file_path'' = Inr (JStr ''jan/models/m/model.json'')"
    by code_simp
  have p: "split_path ''jan/models/m/model.json'' = [''jan'', ''models'', ''m'', ''model.json'']"
    by code_simp
  have d: "lookup (fs stored_world) (split_path ''jan/models/m/model.json'')
           = Some (File \<lparr>fsize = 200, header = None, json = Some stored_descriptor\<rparr>)"
    by code_simp
  have f: "\<not> nullish stored_descriptor" by code_simp
  have g: "is_dir (fs stored_world) (butlast (split_path ''jan/models/m/model.json''))"
    by code_simp
  obtain updatedModel where
    run: "updateModelInfo example_env settings_update stored_world
          = (stored_world\<lparr>fs := AList.update (split_path ''jan/models/m/model.json'')
                 (File (JSON_stringify example_env updatedModel)) (fs stored_world)\<rparr>,
             Inr updatedModel)"
    and frame: "\<forall>part \<in> {''settings'', ''parameters'', ''metadata''}. \<forall>k.
               own_property (prop_of updatedModel part) k
               = (case own_property (prop_of settings_update part) k of
                    None \<Rightarrow> own_property (prop_of stored_descriptor part) k
                  | Some v \<Rightarrow> Some v)"
    and gone: "own_property (json_norm updatedModel) ''file_path'' = None"
              "own_property (json_norm updatedModel) ''file_name'' = None"
    using updateModelInfo_merges [OF a b c d _ f g, of example_env] by auto
  have s: "\<And>k. own_property (prop_of updatedModel ''settings'') k
               = (case own_property (prop_of settings_update ''settings'') k of
                    None \<Rightarrow> own_property (prop_of stored_descriptor ''settings'') k
                  | Some v \<Rightarrow> Some v)"
    using frame by simp
  have u1: "own_property (prop_of settings_update ''settings'') ''ctx_len'' = Some (JNum 8192)"
    by code_simp
  have u2: "own_property (prop_of settings_update ''settings'') ''ngl'' = None" by code_simp
  have u3: "own_property (prop_of settings_update ''settings'') ''prompt_template'' = None"
    by code_simp
  have m2: "own_property (prop_of stored_descriptor ''settings'') ''ngl'' = Some (JNum 33)"
    by code_simp
  have m3: "own_property (prop_of stored_descriptor ''settings'') ''prompt_template''
            = Some (JStr ''{prompt}'')"
    by code_simp
  have written: "lookup (AList.update (split_path ''jan/models/m/model.json'')
                   (File (JSON_stringify example_env updatedModel)) (fs stored_world))
                   [''jan'', ''models'', ''m'', ''model.json'']
                 = Some (File (JSON_stringify example_env updatedModel))"
    by (simp add: p lookup_def update_conv')
  show ?thesis
    using run written gone by (simp add: s u1 u2 u3 m2 m3)
qed

section \<open>Polling until a terminal state\<close>

lemma js_prop_nullish: "nullish v \<Longrightarrow> js_prop v k = Inl TypeError"
  by (cases v) auto

lemma poll_tick_terminal:
  assumes "terminal r"
  shows "poll_tick i r w
         = (w\<lparr>events := events w @ response_events r, timers := removeAll i (timers w)\<rparr>, Inr True)"
proof (cases r)
  case fetch_rejected
  with assms show ?thesis by simp
next
  case (fetch_json state)
  with assms have t: "terminal_state state" by simp
  then have nn: "\<not> nullish state"
    by (auto simp: terminal_state_def js_prop_nullish)
  from t show ?thesis
    by (auto simp: fetch_json nn poll_tick_def on_response_def terminal_state_def event_of_def
        pcatch_def pbind_def plift_def emit_def clearInterval_def pret_def)
qed

lemma poll_tick_continue:
  assumes "\<not> terminal r"
  shows "poll_tick i r w = (w\<lparr>events := events w @ response_events r\<rparr>, Inr False)"
proof (cases r)
  case fetch_rejected
  then show ?thesis by (simp add: poll_tick_def pret_def)
next
  case (fetch_json state)
  with assms have t: "\<not> terminal_state state" by simp
  show ?thesis
  proof (cases "nullish state")
    case True
    then show ?thesis
      by (simp add: fetch_json poll_tick_def on_response_def js_prop_nullish pcatch_def
          pbind_def plift_def pret_def)
  next
    case False
    then obtain x where "js_prop state ''downloadState'' = Inr x"
      using js_prop_not_nullish by blast
    with t False show ?thesis
      by (auto simp: fetch_json poll_tick_def on_response_def terminal_state_def event_of_def
          pcatch_def pbind_def plift_def emit_def pret_def)
  qed
qed

lemma poll_loop_stops:
  assumes "n \<le> m" and "terminal (responses m)"
    and "\<forall>k. n \<le> k \<and> k < m \<longrightarrow> \<not> terminal (responses k)"
  shows "poll_loop responses n i w
         = Some (w\<lparr>events := events w @ concat (map (\<lambda>k. response_events (responses k)) [n..<Suc m]),
                   timers := removeAll i (timers w)\<rparr>)"
  using assms
proof (induction "m - n" arbitrary: n w)
  case 0
  then have "n = m" by simp
  with 0 show ?case
    by (subst poll_loop.simps) (simp add: poll_tick_terminal)
next
  case (Suc d)
  then have lt: "n < m" by simp
  with Suc.prems have nt: "\<not> terminal (responses n)" by simp
  have "poll_loop responses (Suc n) i (w\<lparr>events := events w @ response_events (responses n)\<rparr>)
        = Some (w\<lparr>events := events w @ response_events (responses n)\<rparr>
                 \<lparr>events := events (w\<lparr>events := events w @ response_events (responses n)\<rparr>)
                     @ concat (map (\<lambda>k. response_events (responses k)) [Suc n..<Suc m]),
                  timers := removeAll i (timers (w\<lparr>events := events w @ response_events (responses n)\<rparr>))\<rparr>)"
    using Suc.hyps(2) Suc.prems lt by (intro Suc.hyps(1)) auto
  moreover have "[n..<Suc m] = n # [Suc n..<Suc m]"
    using lt by (simp add: upt_conv_Cons)
  ultimately show ?case
    by (subst poll_loop.simps) (simp add: poll_tick_continue [OF nt])
qed

lemma poll_loop_Some_terminal:
  "poll_loop responses n i w = Some w' \<Longrightarrow> \<exists>m\<ge>n. terminal (responses m)"
proof (induction rule: poll_loop.raw_induct [rotated 1, consumes 1])
  case (1 poll_loop' responses n i w w')
  show ?case
  proof (cases "terminal (responses n)")
    case True
    then show ?thesis by blast
  next
    case False
    with 1(2) have "poll_loop' responses (Suc n) i (w\<lparr>events := events w @ response_events (responses n)\<rparr>) = Some w'"
      by (simp add: poll_tick_continue)
    from 1(1) [OF this] obtain m where "Suc n \<le> m" "terminal (responses m)" by blast
    then show ?thesis by (metis Suc_leD)
  qed
qed

lemma startPolling_unfold:
  "startPollingDownloadProgress responses w
   = poll_loop responses 0 (next_timer w)
       (w\<lparr>timers := timers w @ [next_timer w], next_timer := Suc (next_timer w)\<rparr>)"
  by (simp add: startPollingDownloadProgress_def setInterval_def Let_def)

text \<open>
  Claim C8. A tick whose response carries a state emits exactly one event: success for
  \<open>end\<close>, error for \<open>error\<close>, update for every other state. The polling resolves if
  and only if some response is terminal; it then has run up to the first terminal
  response, has emitted the events of the responses up to that one, and has cleared its
  interval. While no response is terminal it goes on, whatever the number of ticks: on
  an endpoint that never reports a terminal state it never resolves. Responses are taken
  in the order in which they are observed, one per tick.
\<close>

theorem startPollingDownloadProgress_until_terminal:
  "(\<not> nullish state \<longrightarrow>
      events (fst (poll_tick i (fetch_json state) w)) = events w @ [event_of state])
   \<and> ((startPollingDownloadProgress responses w = None) = (\<forall>n. \<not> terminal (responses n)))
   \<and> (terminal (responses n) \<longrightarrow> (\<forall>k<n. \<not> terminal (responses k)) \<longrightarrow>
        (\<exists>w'. startPollingDownloadProgress responses w = Some w'
           \<and> events w' = events w @ concat (map (\<lambda>k. response_events (responses k)) [0..<Suc n])
           \<and> timers w' = removeAll (next_timer w) (timers w)))"
proof (intro conjI impI)
  assume "\<not> nullish state"
  show "events (fst (poll_tick i (fetch_json state) w)) = events w @ [event_of state]"
  proof (cases "terminal (fetch_json state)")
    case True
    show ?thesis using \<open>\<not> nullish state\<close> by (simp add: poll_tick_terminal [OF True])
  next
    case False
    show ?thesis using \<open>\<not> nullish state\<close> by (simp add: poll_tick_continue [OF False])
  qed
next
  show "(startPollingDownloadProgress responses w = None) = (\<forall>n. \<not> terminal (responses n))"
  proof
    assume none: "startPollingDownloadProgress responses w = None"
    show "\<forall>n. \<not> terminal (responses n)"
    proof (rule ccontr)
      assume "\<not> (\<forall>n. \<not> terminal (responses n))"
      then obtain m where m: "terminal (responses m)" by blast
      define n where "n = (LEAST m. terminal (responses m))"
      have "terminal (responses n)" unfolding n_def using m by (rule LeastI)
      moreover have "\<forall>k. 0 \<le> k \<and> k < n \<longrightarrow> \<not> terminal (responses k)"
        unfolding n_def using not_less_Least by blast
      ultimately have "startPollingDownloadProgress responses w \<noteq> None"
        by (simp add: startPolling_unfold poll_loop_stops)
      with none show False by simp
    qed
  next
    assume never: "\<forall>n. \<not> terminal (responses n)"
    show "startPollingDownloadProgress responses w = None"
    proof (rule ccontr)
      assume "startPollingDownloadProgress responses w \<noteq> None"
      then obtain w' where "startPollingDownloadProgress responses w = Some w'" by blast
      then have "\<exists>m\<ge>0. terminal (responses m)"
        unfolding startPolling_unfold by (rule poll_loop_Some_terminal)
      with never show False by blast
    qed
  qed
next
  assume "terminal (responses n)" and "\<forall>k<n. \<not> terminal (responses k)"
  then show "\<exists>w'. startPollingDownloadProgress responses w = Some w'
           \<and> events w' = events w @ concat (map (\<lambda>k. response_events (responses k)) [0..<Suc n])
           \<and> timers w' = removeAll (next_timer w) (timers w)"
    by (simp add: startPolling_unfold poll_loop_stops)
qed

theorem startPollingDownloadProgress_until_terminal_witness:
  "startPollingDownloadProgress (\<lambda>n. downloading) models_world = None
   \<and> (\<exists>w'. startPollingDownloadProgress (\<lambda>n. if n < 2 then downloading else ended) models_world
             = Some w'
           \<and> events w'
             = [onFileDownloadUpdate (JObj [(''modelId'', JStr ''m''), (''downloadState'', JStr ''downloading'')]),
                onFileDownloadUpdate (JObj [(''modelId'', JStr ''m''), (''downloadState'', JStr ''downloading'')]),
                onFileDownloadSuccess (JObj [(''modelId'', JStr ''m''), (''downloadState'', JStr ''end'')])]
           \<and> timers w' = [])"
proof -
  have d: "\<not> terminal downloading" by code_simp
  have e: "terminal ended" by code_simp
  have never: "\<forall>n. \<not> terminal ((\<lambda>n. downloading) n)" using d by simp
  have first: "startPollingDownloadProgress (\<lambda>n. downloading) models_world = None"
    using startPollingDownloadProgress_until_terminal
            [of JNull 0 models_world "\<lambda>n. downloading" 0] never
    by blast
  let ?r = "\<lambda>n::nat. if n < 2 then downloading else ended"
  have t: "terminal (?r 2)" using e by simp
  have nt: "\<forall>k<2. \<not> terminal (?r k)" using d by simp
  have ev: "events models_world @ concat (map (\<lambda>k. response_events (?r k)) [0..<Suc 2])
      = [onFileDownloadUpdate (JObj [(''modelId'', JStr ''m''), (''downloadState'', JStr ''downloading'')]),
         onFileDownloadUpdate (JObj [(''modelId'', JStr ''m''), (''downloadState'', JStr ''downloading'')]),
         onFileDownloadSuccess (JObj [(''modelId'', JStr ''m''), (''downloadState'', JStr ''end'')])]"
    by code_simp
  obtain w' where w': "startPollingDownloadProgress ?r models_world = Some w'"
      "events w' = events models_world @ concat (map (\<lambda>k. response_events (?r k)) [0..<Suc 2])"
      "timers w' = removeAll (next_timer models_world) (timers models_world)"
    using startPollingDownloadProgress_until_terminal
            [of JNull 0 models_world ?r 2] t nt
    by blast
  have tm: "timers w' = []"
    using w'(3) by (simp add: models_world_def)
  have ev': "events w'
      = [onFileDownloadUpdate (JObj [(''modelId'', JStr ''m''), (''downloadState'', JStr ''downloading'')]),
         onFileDownloadUpdate (JObj [(''modelId'', JStr ''m''), (''downloadState'', JStr ''downloading'')]),
         onFileDownloadSuccess (JObj [(''modelId'', JStr ''m''), (''downloadState'', JStr ''end'')])]"
    using w'(2) ev by (simp only:)
  from first w'(1) ev' tm show ?thesis by blast
qed

section \<open>Synthesis of a descriptor from a binary\<close>

lemma children_exist:
  assumes "name \<in> set (children f p)"
  shows "lookup f (p @ [name]) \<noteq> None"
proof -
  from assms obtain q where q: "q \<in> fst ` set f" "q \<noteq> []" "butlast q = p" "last q = name"
    by (auto simp: children_def)
  then have "q = p @ [name]"
    by (metis append_butlast_last_id)
  moreover from q(1) have "map_of f q \<noteq> None"
    by (simp add: map_of_eq_None_iff)
  ultimately show ?thesis
    by (simp add: lookup_def)
qed

lemma find_binary_result:
  assumes "\<forall>name \<in> set files. lookup (fs w) (dir @ [name]) \<noteq> None"
  shows "find_binary dir files w
         = (w, Inr (case filter (is_binary (fs w) dir) files of
                      [] \<Rightarrow> None
                    | name # _ \<Rightarrow>
                        (case lookup (fs w) (dir @ [name]) of
                           Some (File c) \<Rightarrow> Some (name, fsize c)
                         | _ \<Rightarrow> None)))"
  using assms
proof (induction files)
  case Nil
  then show ?case by (simp add: pret_def)
next
  case (Cons f files)
  then obtain n where n: "lookup (fs w) (dir @ [f]) = Some n" by auto
  show ?case
  proof (cases "endsWith f supportedModelFormat")
    case False
    with Cons show ?thesis by (simp add: is_binary_def)
  next
    case True
    show ?thesis
    proof (cases n)
      case Dir
      with True n Cons show ?thesis
        by (simp add: is_binary_def fileStat_def pbind_def)
    next
      case (File c)
      with True n show ?thesis
        by (simp add: is_binary_def fileStat_def pbind_def pret_def)
    qed
  qed
qed

lemma first_of_sorted_filter:
  assumes "sorted xs" and "filter P xs = x # rest"
  shows "\<forall>y \<in> set xs. P y \<longrightarrow> x \<le> y"
proof -
  from assms(2) obtain us vs where xs: "xs = us @ x # vs" and us: "\<forall>u \<in> set us. \<not> P u"
    by (auto simp: filter_eq_Cons_iff)
  from assms(1) xs have "\<forall>v \<in> set vs. x \<le> v"
    by (simp add: sorted_append)
  with xs us show ?thesis by auto
qed

lemma retrieveGGUFMetadata_object:
  "retrieveGGUFMetadata e h = Inr u \<Longrightarrow> \<exists>s p. u = JObj [(''settings'', s), (''parameters'', p)]"
  by (auto simp: retrieveGGUFMetadata_def ebind_def split: sum.splits)

lemma truthy_not_nullish: "truthy v \<Longrightarrow> \<not> nullish v"
  by (cases v) auto

lemma build_model_props:
  assumes "\<not> nullish defaultModel" and "\<not> nullish updatedModel"
  shows "\<exists>model. build_model e defaultModel updatedModel ident url binaryFileName binaryFileSize
                  = Inr model
           \<and> prop_of model ''id'' = JStr ident
           \<and> prop_of model ''name'' = JStr ident
           \<and> prop_of model ''sources'' = JArr [JObj [(''url'', url), (''filename'', JStr binaryFileName)]]
           \<and> prop_of model ''metadata''
               = JObj [(''size'', JNum (int binaryFileSize)), (''author'', JStr ''User''),
                       (''tags'', JArr [])]"
  using assms
  by (simp add: build_model_def js_prop_prop_of prop_of_JObj map_of_put)

text \<open>
  Claim C5, as the code has it. For a model folder without a descriptor file: when no
  entry of the folder is a binary, \<open>generateModelMetadata\<close> logs a warning and
  returns \<open>undefined\<close> without throwing and without touching the files. Otherwise it
  picks the binary whose name is first in lexicographic order; when the header of that
  binary is read and its settings are extracted, the descriptor it returns has \<open>id\<close>
  and \<open>name\<close> equal to the folder name, names the picked binary as its source, has the
  metadata \<open>size\<close> equal to the byte length of the binary and \<open>author\<close> equal to
  \<open>User\<close>, and is written to the descriptor file of the folder.
\<close>

theorem generateModelMetadata_synthesis:
  assumes dir: "is_dir (fs w) (homeDir e @ [d])"
    and nodesc: "lookup (fs w) (homeDir e @ [d, modelMetadataFileName]) = None"
  shows "((\<forall>name \<in> set (children (fs w) (homeDir e @ [d])).
             \<not> is_binary (fs w) (homeDir e @ [d]) name) \<longrightarrow>
          generateModelMetadata e d w
          = (w\<lparr>console := console w
                   @ [console_warn (''Unable to find binary file for model '' @ d)]\<rparr>,
             Inr JUndefined))
       \<and> (\<forall>name c h u.
            name \<in> set (children (fs w) (homeDir e @ [d])) \<longrightarrow>
            endsWith name supportedModelFormat \<longrightarrow>
            lookup (fs w) (homeDir e @ [d, name]) = Some (File c) \<longrightarrow>
            (\<forall>other \<in> set (children (fs w) (homeDir e @ [d])).
               is_binary (fs w) (homeDir e @ [d]) other \<longrightarrow> name \<le> other) \<longrightarrow>
            header c = Some h \<longrightarrow>
            retrieveGGUFMetadata e h = Inr u \<longrightarrow>
            truthy (DEFAULT_MODEL e) \<longrightarrow>
            (\<exists>model.
               generateModelMetadata e d w
               = (w\<lparr>fs := AList.update (homeDir e @ [d, modelMetadataFileName])
                            (File (JSON_stringify e model)) (fs w)\<rparr>,
                  Inr model)
               \<and> prop_of model ''id'' = JStr d
               \<and> prop_of model ''name'' = JStr d
               \<and> prop_of model ''sources''
                   = JArr [JObj [(''url'', JStr name), (''filename'', JStr name)]]
               \<and> prop_of model ''metadata''
                   = JObj [(''size'', JNum (int (fsize c))), (''author'', JStr ''User''),
                           (''tags'', JArr [])]))"
proof -
  let ?dir = "homeDir e @ [d]"
  let ?files = "sort (children (fs w) ?dir)"
  have exist: "\<forall>name \<in> set ?files. lookup (fs w) (?dir @ [name]) \<noteq> None"
  proof (intro ballI)
    fix name
    assume "name \<in> set ?files"
    then have "name \<in> set (children (fs w) ?dir)" by simp
    then show "lookup (fs w) (?dir @ [name]) \<noteq> None" by (rule children_exist)
  qed
  note found = find_binary_result [OF exist]
  have read: "readdirSync ?dir w = (w, Inr (children (fs w) ?dir))"
    using dir by (simp add: readdirSync_def)
  have none: "generateModelMetadata e d w
          = (w\<lparr>console := console w
                   @ [console_warn (''Unable to find binary file for model '' @ d)]\<rparr>,
             Inr JUndefined)"
    if "\<forall>name \<in> set (children (fs w) ?dir). \<not> is_binary (fs w) ?dir name"
  proof -
    from that have "filter (is_binary (fs w) ?dir) ?files = []"
      by (simp add: filter_empty_conv)
    then show ?thesis
      by (simp add: generateModelMetadata_def pbind_def read found log_def pret_def)
  qed
  have some: "\<exists>model.
               generateModelMetadata e d w
               = (w\<lparr>fs := AList.update (homeDir e @ [d, modelMetadataFileName])
                            (File (JSON_stringify e model)) (fs w)\<rparr>,
                  Inr model)
               \<and> prop_of model ''id'' = JStr d
               \<and> prop_of model ''name'' = JStr d
               \<and> prop_of model ''sources''
                   = JArr [JObj [(''url'', JStr name), (''filename'', JStr name)]]
               \<and> prop_of model ''metadata''
                   = JObj [(''size'', JNum (int (fsize c))), (''author'', JStr ''User''),
                           (''tags'', JArr [])]"
    if name: "name \<in> set (children (fs w) ?dir)"
      and ext: "endsWith name supportedModelFormat"
      and node: "lookup (fs w) (homeDir e @ [d, name]) = Some (File c)"
      and least: "\<forall>other \<in> set (children (fs w) ?dir). is_binary (fs w) ?dir other \<longrightarrow> name \<le> other"
      and hdr: "header c = Some h"
      and upd: "retrieveGGUFMetadata e h = Inr u"
      and dflt: "truthy (DEFAULT_MODEL e)"
    for name c h u
  proof -
    have bin: "is_binary (fs w) ?dir name"
      using ext node by (simp add: is_binary_def)
    with name have "filter (is_binary (fs w) ?dir) ?files \<noteq> []"
      by (auto simp: filter_empty_conv)
    then obtain x rest where x: "filter (is_binary (fs w) ?dir) ?files = x # rest"
      by (cases "filter (is_binary (fs w) ?dir) ?files") auto
    then have "x \<in> set (filter (is_binary (fs w) ?dir) ?files)" by simp
    then have xin: "x \<in> set (children (fs w) ?dir)" and xbin: "is_binary (fs w) ?dir x"
      by simp_all
    have "x \<le> name"
      using first_of_sorted_filter [OF _ x] name bin by simp
    moreover have "name \<le> x" using least xin xbin by blast
    ultimately have "x = name" by simp
    with x node have pick: "find_binary ?dir ?files w = (w, Inr (Some (name, fsize c)))"
      by (simp add: found)
    have hd: "readGGUFHeader (janDataFolderPath e @ [''models'', d, name]) w = (w, Inr h)"
      using node hdr by (simp add: readGGUFHeader_def readFileSync_def homeDir_def pbind_def pret_def)
    obtain s p where u: "u = JObj [(''settings'', s), (''parameters'', p)]"
      using retrieveGGUFMetadata_object [OF upd] by blast
    obtain model where model:
      "build_model e (DEFAULT_MODEL e) u d (JStr name) name (fsize c) = Inr model"
      "prop_of model ''id'' = JStr d" "prop_of model ''name'' = JStr d"
      "prop_of model ''sources'' = JArr [JObj [(''url'', JStr name), (''filename'', JStr name)]]"
      "prop_of model ''metadata''
         = JObj [(''size'', JNum (int (fsize c))), (''author'', JStr ''User''), (''tags'', JArr [])]"
      using build_model_props [OF truthy_not_nullish [OF dflt], of u e d "JStr name" name "fsize c"] u
      by auto
    have can: "can_create (fs w) (homeDir e @ [d, modelMetadataFileName])"
      using dir nodesc by (simp add: can_create_def is_dir_def butlast_append)
    have "generateModelMetadata e d w
          = (w\<lparr>fs := AList.update (homeDir e @ [d, modelMetadataFileName])
                            (File (JSON_stringify e model)) (fs w)\<rparr>,
             Inr model)"
      using dflt can
      by (simp add: generateModelMetadata_def pbind_def read pick hd pcatch_def upd model(1)
          plift_def writeFileSync_def pret_def Let_def)
    with model show ?thesis by blast
  qed
  from none some show ?thesis by blast
qed

theorem generateModelMetadata_synthesis_witness:
  "generateModelMetadata example_env ''empty'' synthesis_world
   = (synthesis_world\<lparr>console := [console_warn ''Unable to find binary file for model empty'']\<rparr>,
      Inr JUndefined)
   \<and> (\<exists>model.
        generateModelMetadata example_env ''m'' synthesis_world
        = (synthesis_world\<lparr>fs := AList.update [''jan'', ''models'', ''m'', ''model.json'']
                                   (File (JSON_stringify example_env model)) (fs synthesis_world)\<rparr>,
           Inr model)
        \<and> prop_of model ''id'' = JStr ''m''
        \<and> prop_of model ''name'' = JStr ''m''
        \<and> prop_of model ''sources''
            = JArr [JObj [(''url'', JStr ''b.gguf''), (''filename'', JStr ''b.gguf'')]]
        \<and> prop_of model ''metadata''
            = JObj [(''size'', JNum 30), (''author'', JStr ''User''), (''tags'', JArr [])])"
proof -
  have home: "homeDir example_env = [''jan'', ''models'']" by code_simp
  have name: "modelMetadataFileName = ''model.json''" by (simp add: modelMetadataFileName_def)
  have d1: "is_dir (fs synthesis_world) (homeDir example_env @ [''empty''])" by code_simp
  have n1: "lookup (fs synthesis_world) (homeDir example_env @ [''empty'', modelMetadataFileName]) = None"
    by code_simp
  have c1: "children (fs synthesis_world) (homeDir example_env @ [''empty'']) = [''notes.txt'']"
    by code_simp
  have b1: "\<not> is_binary (fs synthesis_world) (homeDir example_env @ [''empty'']) ''notes.txt''"
    by code_simp
  have first: "generateModelMetadata example_env ''empty'' synthesis_world
     = (synthesis_world\<lparr>console := console synthesis_world
           @ [console_warn (''Unable to find binary file for model '' @ ''empty'')]\<rparr>,
        Inr JUndefined)"
    using generateModelMetadata_synthesis [OF d1 n1] b1 by (simp add: c1)
  have d2: "is_dir (fs synthesis_world) (homeDir example_env @ [''m''])" by code_simp
  have n2: "lookup (fs synthesis_world) (homeDir example_env @ [''m'', modelMetadataFileName]) = None"
    by code_simp
  have c2: "children (fs synthesis_world) (homeDir example_env @ [''m''])
            = [''readme.txt'', ''c.gguf'', ''a.gguf'', ''b.gguf'']"
    by code_simp
  have e2: "endsWith ''b.gguf'' supportedModelFormat" by code_simp
  have l2: "lookup (fs synthesis_world) (homeDir example_env @ [''m'', ''b.gguf''])
            = Some (File \<lparr>fsize = 30, header = Some (JObj [(''llama.block_count'', JNum 32)]), json = None\<rparr>)"
    by code_simp
  have o1: "\<not> is_binary (fs synthesis_world) (homeDir example_env @ [''m'']) ''readme.txt''"
    by code_simp
  have o2: "''b.gguf'' \<le> ''c.gguf''" by code_simp
  have o3: "\<not> is_binary (fs synthesis_world) (homeDir example_env @ [''m'']) ''a.gguf''"
    by code_simp
  have least: "\<forall>other \<in> set (children (fs synthesis_world) (homeDir example_env @ [''m''])).
                 is_binary (fs synthesis_world) (homeDir example_env @ [''m'']) other
                 \<longrightarrow> ''b.gguf'' \<le> other"
    using o1 o2 o3 by (simp add: c2)
  have r2: "retrieveGGUFMetadata example_env (JObj [(''llama.block_count'', JNum 32)])
            = Inr (JObj [(''settings'',
                          JObj [(''prompt_template'', JStr ''{prompt}''),
                                (''ctx_len'', JNum 4096), (''ngl'', JNum 33)]),
                         (''parameters'', JObj [(''stop'', JArr [JStr ''</s>''])])])"
    by code_simp
  have t2: "truthy (DEFAULT_MODEL example_env)" by code_simp
  have in2: "''b.gguf'' \<in> set (children (fs synthesis_world) (homeDir example_env @ [''m'']))"
    by (simp add: c2)
  have h2: "header \<lparr>fsize = 30, header = Some (JObj [(''llama.block_count'', JNum 32)]), json = None\<rparr>
            = Some (JObj [(''llama.block_count'', JNum 32)])"
    by simp
  have s2: "int (fsize \<lparr>fsize = 30, header = Some (JObj [(''llama.block_count'', JNum 32)]), json = None\<rparr>) = 30"
    by simp
  note second = generateModelMetadata_synthesis
                  [OF d2 n2, THEN conjunct2, THEN spec, THEN spec, THEN spec, THEN spec,
                   THEN mp, THEN mp, THEN mp, THEN mp, THEN mp, THEN mp, THEN mp,
                   OF in2 e2 l2 least h2 r2 t2]
  have cons: "console synthesis_world = []" by (simp add: synthesis_world_def)
  from first second show ?thesis
    unfolding home name s2 cons by simp
qed

text \<open>
  Claim C5 as stated asks for the author \<open>user\<close>. The descriptor synthesised for the
  folder \<open>m\<close> of the example has the author \<open>User\<close>.
\<close>

theorem generateModelMetadata_author_counterexample:
  "prop_of (prop_of (result_value (snd (generateModelMetadata example_env ''m'' synthesis_world)))
              ''metadata'') ''author'' = JStr ''User''
   \<and> prop_of (prop_of (result_value (snd (generateModelMetadata example_env ''m'' synthesis_world)))
              ''metadata'') ''author'' \<noteq> JStr ''user''"
  by code_simp

text \<open>
  When the header of the picked binary cannot be read, the metadata is \<open>undefined\<close>
  and the extraction of the settings throws.
\<close>

lemma generateModelMetadata_unreadable_header:
  "snd (generateModelMetadata example_env ''broken'' synthesis_world) = Inl TypeError"
  by code_simp

section \<open>The progress interval of a copy import\<close>

text \<open>
  Claim C1. An import by copy whose source is a directory: the size of the source is
  read, the interval is started, and the copy fails. The call rejects with the error of
  the copy and the interval with id 0, which it had started, is still running: no
  interval was running before the call.
\<close>

theorem importModel_copy_failure_leaves_interval:
  "snd (importModel example_env \<lparr>importId = ''1'', path = [''home'', ''folder.gguf'']\<rparr>
          MOVE_BINARY_FILE import_world) = Inl IOError
   \<and> timers (fst (importModel example_env \<lparr>importId = ''1'', path = [''home'', ''folder.gguf'']\<rparr>
                     MOVE_BINARY_FILE import_world)) = [0]
   \<and> timers import_world = []"
  by code_simp

text \<open>
  The same holds of every import by copy: when the folder is allocated and made, the size
  of the source is read and the copy rejects, the call rejects with the error of the
  copy in a state where the interval it has started is running.
\<close>

lemma copyFile_rejects_unchanged:
  "snd (copyFile src dest w) = Inl err \<Longrightarrow> copyFile src dest w = (w, Inl err)"
  by (auto simp: copyFile_def pbind_def readFileSync_def writeFileSync_def
      split: option.splits node.splits if_splits)

lemma importModel_copy_rejects:
  assumes folder: "getModelFolderName e modelFolderName None w = (w, Inr modelFolderPath)"
    and name: "modelFolderName
               = (if endsWith binaryName supportedModelFormat
                  then replace_first supportedModelFormat [] binaryName else binaryName)"
               "binaryName = filter (\<lambda>c. \<not> is_space c) (baseName (path model))"
    and made: "mkdir modelFolderPath w = (w1, Inr ())"
    and stat: "snd (fileStat (path model) w1) = Inr srcStat"
    and copy: "snd (copyFile (path model)
                      (modelFolderPath @ [if endsWith binaryName supportedModelFormat
                                          then binaryName else binaryName @ supportedModelFormat])
                      (w1\<lparr>timers := timers w1 @ [next_timer w1],
                          next_timer := Suc (next_timer w1)\<rparr>)) = Inl err"
  shows "importModel e model MOVE_BINARY_FILE w
         = (w1\<lparr>timers := timers w1 @ [next_timer w1], next_timer := Suc (next_timer w1)\<rparr>,
            Inl err)"
proof -
  have st: "fileStat (path model) w1 = (w1, Inr srcStat)"
    using stat by (auto simp: fileStat_def split: option.splits node.splits)
  show ?thesis
    using folder made st copyFile_rejects_unchanged [OF copy]
    by (simp add: importModel_def name [symmetric] Let_def pbind_def setInterval_def)
qed

text \<open>When the copy completes, the interval is cleared before the synthesis.\<close>

lemma importModel_copy_success_clears_interval:
  "timers (fst (importModel example_env \<lparr>importId = ''1'', path = [''home'', ''a.gguf'']\<rparr>
                  MOVE_BINARY_FILE import_world)) = []
   \<and> prop_of (result_value (snd (importModel example_env
                  \<lparr>importId = ''1'', path = [''home'', ''a.gguf'']\<rparr>
                  MOVE_BINARY_FILE import_world))) ''id'' = JStr ''a''"
  by code_simp

section \<open>The batch import\<close>

lemma keeps_pret: "keeps_events (pret x)"
  by (simp add: keeps_events_def pret_def)

lemma keeps_pthrow: "keeps_events (pthrow err)"
  by (simp add: keeps_events_def pthrow_def)

lemma keeps_plift: "keeps_events (plift r)"
  by (simp add: keeps_events_def plift_def)

lemma keeps_pbind:
  assumes "keeps_events m" and "\<And>x. keeps_events (f x)"
  shows "keeps_events (pbind m f)"
  unfolding keeps_events_def
proof
  fix w
  obtain w1 r where m: "m w = (w1, r)" by (cases "m w")
  with assms(1) have e: "events w1 = events w"
    by (metis fst_conv keeps_events_def)
  show "events (fst (pbind m f w)) = events w"
  proof (cases r)
    case (Inl err)
    with m e show ?thesis by (simp add: pbind_def)
  next
    case (Inr x)
    with assms(2) [of x] m e show ?thesis by (simp add: pbind_def keeps_events_def)
  qed
qed

lemma keeps_pcatch:
  assumes "keeps_events m" and "\<And>err. keeps_events (h err)"
  shows "keeps_events (pcatch m h)"
  unfolding keeps_events_def
proof
  fix w
  obtain w1 r where m: "m w = (w1, r)" by (cases "m w")
  with assms(1) have e: "events w1 = events w"
    by (metis fst_conv keeps_events_def)
  show "events (fst (pcatch m h w)) = events w"
  proof (cases r)
    case (Inl err)
    with assms(2) [of err] m e show ?thesis by (simp add: pcatch_def keeps_events_def)
  next
    case (Inr x)
    with m e show ?thesis by (simp add: pcatch_def)
  qed
qed

lemma keeps_primitives:
  "keeps_events (log l)"
  "keeps_events setInterval"
  "keeps_events (clearInterval i)"
  "keeps_events (existsSync p)"
  "keeps_events (readdirSync p)"
  "keeps_events (fileStat p)"
  "keeps_events (readFileSync p)"
  "keeps_events (writeFileSync p c)"
  "keeps_events (mkdir p)"
  by (auto simp: keeps_events_def log_def setInterval_def clearInterval_def existsSync_def
      readdirSync_def fileStat_def readFileSync_def writeFileSync_def mkdir_def
      split: option.splits node.splits)

lemmas keeps_intros = keeps_pret keeps_pthrow keeps_plift keeps_pbind keeps_pcatch keeps_primitives

lemma keeps_copyFile: "keeps_events (copyFile src dest)"
  unfolding copyFile_def by (intro keeps_intros)

lemma keeps_readGGUFHeader: "keeps_events (readGGUFHeader p)"
  unfolding readGGUFHeader_def by (intro keeps_intros) (auto split: option.splits intro: keeps_intros)

lemma keeps_find_binary: "keeps_events (find_binary dir files)"
  by (induction files) (auto intro!: keeps_intros)

lemma keeps_generateModelMetadata: "keeps_events (generateModelMetadata e d)"
  unfolding generateModelMetadata_def Let_def
  by (intro keeps_intros keeps_find_binary keeps_readGGUFHeader)
     (auto split: option.splits intro!: keeps_intros keeps_readGGUFHeader)

lemma keeps_importModelSymlink: "keeps_events (importModelSymlink e p n f)"
  unfolding importModelSymlink_def Let_def
  by (intro keeps_intros keeps_readGGUFHeader)
     (auto intro!: keeps_intros keeps_readGGUFHeader)

lemma getModelFolderName_returns: "\<exists>p. getModelFolderName e s None w = (w, Inr p)"
proof -
  define n where "n = (LEAST n. lookup (fs w) (folder_path e s n) = None)"
  have "lookup (fs w) (folder_path e s n) = None"
    unfolding n_def using some_folder_unused by (rule LeastI_ex)
  moreover have "\<forall>k<n. lookup (fs w) (folder_path e s k) \<noteq> None"
    unfolding n_def using not_less_Least by blast
  ultimately have "getModelFolderName e s None w = (w, Inr (folder_path e s n))"
    by (intro getModelFolderName_probe) (simp_all add: count_or_zero_def)
  then show ?thesis by blast
qed

lemma keeps_getModelFolderName: "keeps_events (getModelFolderName e s None)"
  unfolding keeps_events_def
proof
  fix w
  obtain p where "getModelFolderName e s None w = (w, Inr p)"
    using getModelFolderName_returns by blast
  then show "events (fst (getModelFolderName e s None w)) = events w" by simp
qed

lemma keeps_importModel: "keeps_events (importModel e model optionType)"
  unfolding importModel_def Let_def
  by (intro keeps_intros keeps_getModelFolderName)
     (auto intro!: keeps_intros keeps_importModelSymlink keeps_copyFile keeps_generateModelMetadata)

lemma keeps_import_attempt: "keeps_events (import_attempt e optionType model)"
  unfolding import_attempt_def by (intro keeps_intros keeps_importModel)

lemma import_attempt_events: "events (fst (import_attempt e optionType model w)) = events w"
  using keeps_import_attempt by (simp add: keeps_events_def)

lemma loop_step:
  "importModels_loop e optionType (model # models) acc w
   = (let r = import_attempt e optionType model (w\<lparr>events := events w @ [onLocalImportModelUpdate model]\<rparr>)
      in importModels_loop e optionType models
           (case snd r of Inl err \<Rightarrow> acc | Inr (importedModel, modelId) \<Rightarrow> acc @ [importedModel])
           ((fst r)\<lparr>events := events (fst r) @ [outcome_event model (snd r)]\<rparr>))"
proof -
  let ?w1 = "w\<lparr>events := events w @ [onLocalImportModelUpdate model]\<rparr>"
  obtain w2 r where i: "importModel e model optionType ?w1 = (w2, r)"
    by (cases "importModel e model optionType ?w1")
  show ?thesis
  proof (cases r)
    case (Inl err)
    with i show ?thesis
      by (simp add: import_attempt_def pbind_def pcatch_def emit_def pret_def Let_def)
  next
    case (Inr importedModel)
    show ?thesis
    proof (cases "js_prop importedModel ''id''")
      case (Inl err)
      with i Inr show ?thesis
        by (simp add: import_attempt_def pbind_def pcatch_def emit_def pret_def plift_def Let_def)
    next
      case (Inr modelId)
      with i \<open>r = Inr importedModel\<close> show ?thesis
        by (simp add: import_attempt_def pbind_def pcatch_def emit_def pret_def plift_def Let_def)
    qed
  qed
qed

lemma imported_of_append_snoc: "imported_of (rs @ [(m, r)])
   = imported_of rs @ (case r of Inl err \<Rightarrow> [] | Inr (importedModel, modelId) \<Rightarrow> [importedModel])"
  by (induction rs rule: imported_of.induct) (auto split: sum.splits)

lemma importModels_loop_trace:
  "\<exists>w'. importModels_loop e optionType models acc w
         = (w', Inr (acc @ imported_of (batch_run e optionType models w)))
       \<and> events w' = events w @ concat (map item_events (batch_run e optionType models w))"
proof (induction models arbitrary: acc w)
  case Nil
  then show ?case by (simp add: pret_def)
next
  case (Cons model models)
  let ?w1 = "w\<lparr>events := events w @ [onLocalImportModelUpdate model]\<rparr>"
  let ?r = "import_attempt e optionType model ?w1"
  let ?w2 = "(fst ?r)\<lparr>events := events (fst ?r) @ [outcome_event model (snd ?r)]\<rparr>"
  let ?acc = "case snd ?r of Inl err \<Rightarrow> acc | Inr (importedModel, modelId) \<Rightarrow> acc @ [importedModel]"
  from Cons.IH [of ?acc ?w2] obtain w' where
    run: "importModels_loop e optionType models ?acc ?w2
          = (w', Inr (?acc @ imported_of (batch_run e optionType models ?w2)))"
    and ev: "events w' = events ?w2 @ concat (map item_events (batch_run e optionType models ?w2))"
    by blast
  have e2: "events ?w2 = events w @ [onLocalImportModelUpdate model, outcome_event model (snd ?r)]"
    by (simp add: import_attempt_events)
  have acc: "?acc @ imported_of (batch_run e optionType models ?w2)
             = acc @ imported_of (batch_run e optionType (model # models) w)"
    by (cases "snd ?r") (auto simp: Let_def)
  have "importModels_loop e optionType (model # models) acc w
        = (w', Inr (acc @ imported_of (batch_run e optionType (model # models) w)))"
    using run acc by (simp only: loop_step Let_def)
  moreover have "events w' = events w @ concat (map item_events (batch_run e optionType (model # models) w))"
    using ev e2 by (simp add: Let_def)
  ultimately show ?case by blast
qed

lemma batch_run_items: "map fst (batch_run e optionType models w) = models"
  by (induction models arbitrary: w) (simp_all add: Let_def)

text \<open>
  Claim C4. \<open>importModels\<close> always completes. The events it emits are, for the items in
  list order, an update event followed by exactly one event for the outcome of the
  attempt on that item, a success event when the attempt succeeds and a failure event
  when it throws; a failure does not stop the items after it; one finished event comes
  last and carries precisely the descriptors of the successful attempts, in order.
  The events of the progress interval, which runs on real time, are not in the trace.
\<close>

theorem importModels_events:
  "\<exists>w'. importModels e models optionType w = (w', Inr ())
       \<and> events w'
         = events w @ concat (map item_events (batch_run e optionType models w))
           @ [onLocalImportModelFinished (imported_of (batch_run e optionType models w))]
       \<and> map fst (batch_run e optionType models w) = models"
proof -
  obtain w1 where
    run: "importModels_loop e optionType models [] w
          = (w1, Inr ([] @ imported_of (batch_run e optionType models w)))"
    and ev: "events w1 = events w @ concat (map item_events (batch_run e optionType models w))"
    using importModels_loop_trace [of e optionType models "[]" w] by blast
  then show ?thesis
    by (simp add: importModels_def pbind_def emit_def batch_run_items)
qed

theorem importModels_events_witness:
  "\<exists>w' first third.
     importModels example_env three_models MOVE_BINARY_FILE import_world = (w', Inr ())
     \<and> events w'
       = [onLocalImportModelUpdate \<lparr>importId = ''1'', path = [''home'', ''a.gguf'']\<rparr>,
          onLocalImportModelSuccess \<lparr>importId = ''1'', path = [''home'', ''a.gguf'']\<rparr> (JStr ''a''),
          onLocalImportModelUpdate \<lparr>importId = ''2'', path = [''home'', ''b.gguf'']\<rparr>,
          onLocalImportModelFailed \<lparr>importId = ''2'', path = [''home'', ''b.gguf'']\<rparr> IOError,
          onLocalImportModelUpdate \<lparr>importId = ''3'', path = [''home'', ''c.gguf'']\<rparr>,
          onLocalImportModelSuccess \<lparr>importId = ''3'', path = [''home'', ''c.gguf'']\<rparr> (JStr ''c''),
          onLocalImportModelFinished [first, third]]
     \<and> prop_of first ''id'' = JStr ''a''
     \<and> prop_of third ''id'' = JStr ''c''"
proof -
  let ?run = "batch_run example_env MOVE_BINARY_FILE three_models import_world"
  have ev: "events import_world @ concat (map item_events ?run)
      = [onLocalImportModelUpdate \<lparr>importId = ''1'', path = [''home'', ''a.gguf'']\<rparr>,
         onLocalImportModelSuccess \<lparr>importId = ''1'', path = [''home'', ''a.gguf'']\<rparr> (JStr ''a''),
         onLocalImportModelUpdate \<lparr>importId = ''2'', path = [''home'', ''b.gguf'']\<rparr>,
         onLocalImportModelFailed \<lparr>importId = ''2'', path = [''home'', ''b.gguf'']\<rparr> IOError,
         onLocalImportModelUpdate \<lparr>importId = ''3'', path = [''home'', ''c.gguf'']\<rparr>,
         onLocalImportModelSuccess \<lparr>importId = ''3'', path = [''home'', ''c.gguf'']\<rparr> (JStr ''c'')]"
    by code_simp
  have ids: "map (\<lambda>d. prop_of d ''id'') (imported_of ?run) = [JStr ''a'', JStr ''c'']"
    by code_simp
  then obtain first third where imp: "imported_of ?run = [first, third]"
    "prop_of first ''id'' = JStr ''a''" "prop_of third ''id'' = JStr ''c''"
    by (auto simp: map_eq_Cons_conv)
  obtain w' where
    "importModels example_env three_models MOVE_BINARY_FILE import_world = (w', Inr ())"
    "events w' = events import_world @ concat (map item_events ?run)
                 @ [onLocalImportModelFinished (imported_of ?run)]"
    using importModels_events [of example_env three_models MOVE_BINARY_FILE import_world] by blast
  with ev imp show ?thesis by (metis append.assoc append_Cons append_Nil)
qed

end
